theory Spec2Isabelle
  imports Main "HOL-Library.Word"
begin

unbundle bit_operations_syntax

section \<open>CPU capability detection and module selection\<close>

text \<open>
  The C type \<open>int\<close> is a 32-bit two's complement integer. Comparisons on it are signed
  (\<open>\<le>s\<close>), the bitwise operators work on the bit pattern.
\<close>

type_synonym int32 = "32 word"

text \<open>\<^verbatim>\<open>enum CPULevel_t\<close>, in the order of the source.\<close>

datatype CPULevel_t = CPU_HAS_SSE2 | CPU_HAS_SSE42 | CPU_HAS_AVX2

text \<open>
  The array \<^verbatim>\<open>int cpuInfo[4]\<close> that \<^verbatim>\<open>GetCPUID\<close> fills: element \<open>i\<close> is the field
  \<open>cpuInfo_i\<close> (EAX, EBX, ECX, EDX of the CPUID instruction). The instruction itself is
  the hardware, so \<^verbatim>\<open>GetCPUID( pInfo, func, subfunc )\<close> is a parameter of the model: a
  function from \<open>func\<close> and \<open>subfunc\<close> to the four registers.
\<close>

record cpuInfo =
  cpuInfo_0 :: int32
  cpuInfo_1 :: int32
  cpuInfo_2 :: int32
  cpuInfo_3 :: int32

type_synonym cpuid = "int32 \<Rightarrow> int32 \<Rightarrow> cpuInfo"

text \<open>
  \<^verbatim>\<open>GetCPULevel\<close>. \<^verbatim>\<open>bool hasAVX2 = cpuInfo[1] & ( 1 << 5 )\<close> converts an \<open>int\<close> to
  \<open>bool\<close>: true iff the masked value is not zero. The \<^verbatim>\<open>else\<close> of the source belongs to
  \<^verbatim>\<open>if ( numFuncs >= 7 )\<close>.
\<close>

definition GetCPULevel :: "cpuid \<Rightarrow> CPULevel_t" where
  "GetCPULevel GetCPUID =
     (let cpuLevel = CPU_HAS_SSE2;
          cpuInfo = GetCPUID 0 0;
          numFuncs = cpuInfo_0 cpuInfo
      in if 7 \<le>s numFuncs then
           (let cpuInfo = GetCPUID 7 0;
                hasAVX2 = (cpuInfo_1 cpuInfo AND push_bit 5 1 \<noteq> 0)
            in if hasAVX2 then CPU_HAS_AVX2 else cpuLevel)
         else
           (let cpuInfo = GetCPUID 1 0;
                hasSSE42 = (cpuInfo_2 cpuInfo AND push_bit 20 1 \<noteq> 0)
            in if hasSSE42 then CPU_HAS_SSE42 else cpuLevel))"

text \<open>
  \<^verbatim>\<open>GetModuleFromCPULevel\<close>. The macro \<^verbatim>\<open>DLL_EXT_STRING\<close> (the platform's file
  extension) is defined outside this file and is a parameter; the adjacent string literals
  of the source are one concatenated string.
\<close>

definition GetModuleFromCPULevel :: "string \<Rightarrow> CPULevel_t \<Rightarrow> string" where
  "GetModuleFromCPULevel DLL_EXT_STRING level =
     (case level of
        CPU_HAS_AVX2 \<Rightarrow> ''vphysics_jolt_avx2'' @ DLL_EXT_STRING
      | CPU_HAS_SSE42 \<Rightarrow> ''vphysics_jolt_sse42'' @ DLL_EXT_STRING
      | _ \<Rightarrow> ''vphysics_jolt_sse2'' @ DLL_EXT_STRING)"

text \<open>
  The fallback ladder in the words of the specification, to compare \<open>GetCPULevel\<close> with:
  wide-vector if leaf 7 exists and its AVX2 bit is set; otherwise mid-tier if the SSE4.2
  bit of leaf 1 is set; otherwise baseline.
\<close>

definition DetectTier_ladder :: "cpuid \<Rightarrow> CPULevel_t" where
  "DetectTier_ladder GetCPUID =
     (if 7 \<le>s cpuInfo_0 (GetCPUID 0 0) \<and> cpuInfo_1 (GetCPUID 7 0) AND push_bit 5 1 \<noteq> 0
      then CPU_HAS_AVX2
      else if cpuInfo_2 (GetCPUID 1 0) AND push_bit 20 1 \<noteq> 0 then CPU_HAS_SSE42
      else CPU_HAS_SSE2)"

text \<open>
  A processor of the generation before AVX2 (the register values of an Intel Core
  i7-3770): the highest basic leaf is 13, leaf 7 reports EBX = 0x281 (bit 5 clear), leaf 1
  reports ECX = 0x7FBAE3BF (bit 20, SSE4.2, set).
\<close>

definition cpuid_sse42_no_avx2 :: cpuid where
  "cpuid_sse42_no_avx2 func subfunc =
     (if func = 0 then \<lparr>cpuInfo_0 = 13, cpuInfo_1 = 0x756E6547, cpuInfo_2 = 0x6C65746E, cpuInfo_3 = 0x49656E69\<rparr>
      else if func = 1 then \<lparr>cpuInfo_0 = 0x306A9, cpuInfo_1 = 0x100800, cpuInfo_2 = 0x7FBAE3BF, cpuInfo_3 = 0xBFEBFBFF\<rparr>
      else if func = 7 then \<lparr>cpuInfo_0 = 0, cpuInfo_1 = 0x281, cpuInfo_2 = 0, cpuInfo_3 = 0\<rparr>
      else \<lparr>cpuInfo_0 = 0, cpuInfo_1 = 0, cpuInfo_2 = 0, cpuInfo_3 = 0\<rparr>)"

section \<open>The world outside the wrapper\<close>

text \<open>
  Values that only pass through the wrapper. A C++ pointer is \<open>None\<close> (\<^verbatim>\<open>nullptr\<close>) or
  \<open>Some a\<close> (the address \<open>a\<close>); a reference argument is the address of its referent; a
  \<^verbatim>\<open>float\<close> is its 32-bit pattern (the wrapper never computes on one); \<^verbatim>\<open>size_t\<close> is an
  unsigned integer of the platform's width.
\<close>

type_synonym uint32 = "32 word"
type_synonym uint16 = "16 word"
type_synonym float = "32 word"
type_synonym size_t = nat
type_synonym ptr = "nat option"
type_synonym ref = nat

text \<open>
  What a call returns: nothing, or a value of one of the C++ return types of the three
  interfaces (an enum such as \<^verbatim>\<open>InitReturnVal_t\<close> is its \<open>int\<close> value, a \<^verbatim>\<open>Vector\<close> its
  three components).
\<close>

datatype ret =
    RetVoid
  | RetBool bool
  | RetInt int32
  | RetUInt uint32
  | RetFloat float
  | RetPtr ptr
  | RetVector float float float

text \<open>
  The only way the wrapper itself can go wrong: \<^verbatim>\<open>p->f(...)\<close> with \<^verbatim>\<open>p\<close> null, which is
  undefined behaviour in C++.
\<close>

datatype fault = NullDereference

text \<open>
  The virtual methods of the three interfaces, one constructor per method with the
  arguments of the call in the order of the declaration. The overloads of \<^verbatim>\<open>TraceBox\<close>
  and \<^verbatim>\<open>VPhysicsKeyParserCreate\<close> are told apart by a suffix.
\<close>

datatype IPhysics_call =
    IPhysics_Connect ptr
  | IPhysics_Disconnect
  | IPhysics_Init
  | IPhysics_Shutdown
  | IPhysics_QueryInterface ptr
  | IPhysics_CreateEnvironment
  | IPhysics_DestroyEnvironment ptr
  | IPhysics_GetActiveEnvironmentByIndex int32
  | IPhysics_CreateObjectPairHash
  | IPhysics_DestroyObjectPairHash ptr
  | IPhysics_FindOrCreateCollisionSet uint32 int32
  | IPhysics_FindCollisionSet uint32
  | IPhysics_DestroyAllCollisionSets

datatype IPhysicsSurfaceProps_call =
    IPhysicsSurfaceProps_ParseSurfaceData ptr ptr
  | IPhysicsSurfaceProps_SurfacePropCount
  | IPhysicsSurfaceProps_GetSurfaceIndex ptr
  | IPhysicsSurfaceProps_GetPhysicsProperties int32 ptr ptr ptr ptr
  | IPhysicsSurfaceProps_GetSurfaceData int32
  | IPhysicsSurfaceProps_GetString uint16
  | IPhysicsSurfaceProps_GetPropName int32
  | IPhysicsSurfaceProps_SetWorldMaterialIndexTable ptr int32
  | IPhysicsSurfaceProps_GetPhysicsParameters int32 ptr
  | IPhysicsSurfaceProps_GetMaterialIndexDataOps
  | IPhysicsSurfaceProps_GetIVPMaterial int32
  | IPhysicsSurfaceProps_GetIVPMaterialIndex ptr
  | IPhysicsSurfaceProps_GetIVPManager
  | IPhysicsSurfaceProps_RemapIVPMaterialIndex int32
  | IPhysicsSurfaceProps_GetReservedMaterialName int32

datatype IPhysicsCollision_call =
    IPhysicsCollision_ConvexFromVerts ptr int32
  | IPhysicsCollision_ConvexFromPlanes ptr int32 float
  | IPhysicsCollision_ConvexVolume ptr
  | IPhysicsCollision_ConvexSurfaceArea ptr
  | IPhysicsCollision_SetConvexGameData ptr uint32
  | IPhysicsCollision_ConvexFree ptr
  | IPhysicsCollision_BBoxToConvex ref ref
  | IPhysicsCollision_ConvexFromConvexPolyhedron ref
  | IPhysicsCollision_ConvexesFromConvexPolygon ref ptr int32 ptr
  | IPhysicsCollision_PolysoupCreate
  | IPhysicsCollision_PolysoupDestroy ptr
  | IPhysicsCollision_PolysoupAddTriangle ptr ref ref ref int32
  | IPhysicsCollision_ConvertPolysoupToCollide ptr bool
  | IPhysicsCollision_ConvertConvexToCollide ptr int32
  | IPhysicsCollision_ConvertConvexToCollideParams ptr int32 ref
  | IPhysicsCollision_DestroyCollide ptr
  | IPhysicsCollision_CollideSize ptr
  | IPhysicsCollision_CollideWrite ptr ptr bool
  | IPhysicsCollision_UnserializeCollide ptr int32 int32
  | IPhysicsCollision_CollideVolume ptr
  | IPhysicsCollision_CollideSurfaceArea ptr
  | IPhysicsCollision_CollideGetExtent ptr ref ref ref
  | IPhysicsCollision_CollideGetAABB ptr ptr ptr ref ref
  | IPhysicsCollision_CollideGetMassCenter ptr ptr
  | IPhysicsCollision_CollideSetMassCenter ptr ref
  | IPhysicsCollision_CollideGetOrthographicAreas ptr
  | IPhysicsCollision_CollideSetOrthographicAreas ptr ref
  | IPhysicsCollision_CollideIndex ptr
  | IPhysicsCollision_BBoxToCollide ref ref
  | IPhysicsCollision_GetConvexesUsedInCollideable ptr ptr int32
  | IPhysicsCollision_TraceBox ref ref ref ref ptr ref ref ptr
  | IPhysicsCollision_TraceBox_ray ref ptr ref ref ptr
  | IPhysicsCollision_TraceBox_ray_mask ref uint32 ptr ptr ref ref ptr
  | IPhysicsCollision_TraceCollide ref ref ptr ref ptr ref ref ptr
  | IPhysicsCollision_IsBoxIntersectingCone ref ref ref
  | IPhysicsCollision_VCollideLoad ptr int32 ptr int32 bool
  | IPhysicsCollision_VCollideUnload ptr
  | IPhysicsCollision_VPhysicsKeyParserCreate ptr
  | IPhysicsCollision_VPhysicsKeyParserCreate_vcollide ptr
  | IPhysicsCollision_VPhysicsKeyParserDestroy ptr
  | IPhysicsCollision_CreateDebugMesh ptr ptr
  | IPhysicsCollision_DestroyDebugMesh int32 ptr
  | IPhysicsCollision_CreateQueryModel ptr
  | IPhysicsCollision_DestroyQueryModel ptr
  | IPhysicsCollision_ThreadContextCreate
  | IPhysicsCollision_ThreadContextDestroy ptr
  | IPhysicsCollision_CreateVirtualMesh ref
  | IPhysicsCollision_SupportsVirtualMesh
  | IPhysicsCollision_GetBBoxCacheSize ptr ptr
  | IPhysicsCollision_PolyhedronFromConvex ptr bool
  | IPhysicsCollision_OutputDebugInfo ptr
  | IPhysicsCollision_ReadStat int32
  | IPhysicsCollision_CollideGetRadius ptr
  | IPhysicsCollision_VCollideAllocUserData ptr size_t
  | IPhysicsCollision_VCollideFreeUserData ptr
  | IPhysicsCollision_VCollideCheck ptr ptr
  | IPhysicsCollision_TraceBoxAA ref ptr ptr
  | IPhysicsCollision_DuplicateAndScale ptr ptr float

text \<open>
  Everything the wrapper does to the outside is an event; a run of the wrapper is the list
  of its events in order:
  \<^item> \<^verbatim>\<open>Sys_LoadInterface( pModuleName, pInterfaceVersionName, &module, &interface )\<close> with its
    outcome (\<open>None\<close> when it returned false, the module handle and the interface pointer
    it stored when it returned true);
  \<^item> \<^verbatim>\<open>Sys_UnloadModule( pModule )\<close>;
  \<^item> \<^verbatim>\<open>Msg( ... )\<close> with the formatted text;
  \<^item> a virtual call through a delegate pointer: the address of the delegate and the method
    with its arguments.
\<close>

datatype event =
    Sys_LoadInterface_call string string "(nat \<times> nat) option"
  | Sys_UnloadModule_call ptr
  | Msg_call string
  | IPhysics_vcall nat IPhysics_call
  | IPhysicsSurfaceProps_vcall nat IPhysicsSurfaceProps_call
  | IPhysicsCollision_vcall nat IPhysicsCollision_call

text \<open>
  What \<^verbatim>\<open>vphysics_wrapper.cpp\<close> uses and does not define: the processor (\<^verbatim>\<open>GetCPUID\<close>), the macros
  \<^verbatim>\<open>DLL_EXT_STRING\<close>, \<^verbatim>\<open>VPHYSICS_*_INTERFACE_VERSION\<close> and \<^verbatim>\<open>__FUNCTION__\<close> (whose
  expansion for a class and a method depends on the compiler), the SDK's
  \<^verbatim>\<open>Sys_LoadInterface\<close>, and the objects of the loaded modules. They are parameters.

  \<open>Sys_LoadInterface\<close> may depend on everything that happened before (the events so
  far), and so may the value a delegate returns. \<open>Sys_LoadInterface\<close> returns true only
  after it has stored a module handle and a non-null interface pointer; when it returns
  false the caller's interface pointer, null before the call at each of the three call
  sites, is null after it and the module pointer is not written.
\<close>

record platform =
  GetCPUID :: cpuid
  DLL_EXT_STRING :: string
  VPHYSICS_INTERFACE_VERSION :: string
  VPHYSICS_SURFACEPROPS_INTERFACE_VERSION :: string
  VPHYSICS_COLLISION_INTERFACE_VERSION :: string
  FUNCTION :: "string \<Rightarrow> string \<Rightarrow> string"
  Sys_LoadInterface :: "event list \<Rightarrow> string \<Rightarrow> string \<Rightarrow> (nat \<times> nat) option"
  IPhysics_impl :: "event list \<Rightarrow> nat \<Rightarrow> IPhysics_call \<Rightarrow> ret"
  IPhysicsSurfaceProps_impl :: "event list \<Rightarrow> nat \<Rightarrow> IPhysicsSurfaceProps_call \<Rightarrow> ret"
  IPhysicsCollision_impl :: "event list \<Rightarrow> nat \<Rightarrow> IPhysicsCollision_call \<Rightarrow> ret"

text \<open>
  A method of a wrapper takes the object and the events so far, and gives what it returns
  (or the fault), the object after the call and the events after the call.
\<close>

type_synonym 'o result = "(fault + ret) \<times> 'o \<times> event list"

text \<open>
  The call \<^verbatim>\<open>Sys_LoadInterface( name, version, &pModule, &pInterface )\<close> with its two out
  parameters: the returned flag, the two pointers after the call, the events.
\<close>

definition call_Sys_LoadInterface ::
  "platform \<Rightarrow> string \<Rightarrow> string \<Rightarrow> ptr \<Rightarrow> ptr \<Rightarrow> event list \<Rightarrow>
   bool \<times> ptr \<times> ptr \<times> event list" where
  "call_Sys_LoadInterface h pModuleName pInterfaceVersionName pModule pInterface tr =
     (case Sys_LoadInterface h tr pModuleName pInterfaceVersionName of
        None \<Rightarrow>
          (False, pModule, pInterface,
           tr @ [Sys_LoadInterface_call pModuleName pInterfaceVersionName None])
      | Some (m, i) \<Rightarrow>
          (True, Some m, Some i,
           tr @ [Sys_LoadInterface_call pModuleName pInterfaceVersionName (Some (m, i))]))"

definition Sys_UnloadModule :: "ptr \<Rightarrow> event list \<Rightarrow> event list" where
  "Sys_UnloadModule pModule tr = tr @ [Sys_UnloadModule_call pModule]"

text \<open>\<^verbatim>\<open>Msg("Debug: Entering %s\n", __FUNCTION__)\<close> and \<^verbatim>\<open>Msg( "Failed to load %s\n", pModuleName )\<close>.\<close>

definition Msg_Debug_Entering :: "platform \<Rightarrow> string \<Rightarrow> string \<Rightarrow> event list \<Rightarrow> event list" where
  "Msg_Debug_Entering h cls fn tr =
     tr @ [Msg_call (''Debug: Entering '' @ FUNCTION h cls fn @ [CHR 0x0A])]"

definition Msg_Failed_to_load :: "string \<Rightarrow> event list \<Rightarrow> event list" where
  "Msg_Failed_to_load pModuleName tr =
     tr @ [Msg_call (''Failed to load '' @ pModuleName @ [CHR 0x0A])]"

text \<open>A call statement whose value is not used (the \<^verbatim>\<open>void\<close> methods).\<close>

definition discard :: "'o result \<Rightarrow> 'o result" where
  "discard r = (case r of (Inl f, this, tr) \<Rightarrow> (Inl f, this, tr) | (Inr v, this, tr) \<Rightarrow> (Inr RetVoid, this, tr))"

section \<open>The environment facade: \<^verbatim>\<open>PhysicsWrapper\<close>\<close>

record PhysicsWrapper =
  m_pActualPhysicsModule :: ptr
  m_pActualPhysicsInterface :: ptr

text \<open>
  \<^verbatim>\<open>m_pActualPhysicsInterface->method( args )\<close>: a null pointer is the fault, otherwise the
  call is dispatched to the delegate with these arguments and its value comes back.
\<close>

definition m_pActualPhysicsInterface_arrow ::
  "platform \<Rightarrow> PhysicsWrapper \<Rightarrow> IPhysics_call \<Rightarrow> event list \<Rightarrow> PhysicsWrapper result" where
  "m_pActualPhysicsInterface_arrow h this c tr =
     (case m_pActualPhysicsInterface this of
        None \<Rightarrow> (Inl NullDereference, this, tr)
      | Some p \<Rightarrow> (Inr (IPhysics_impl h tr p c), this, tr @ [IPhysics_vcall p c]))"

text \<open>
  \<^verbatim>\<open>PhysicsWrapper PhysicsWrapper::s_PhysicsInterface;\<close> The class has no constructor and the
  object has static storage, so both members are null when the program starts and nothing
  is run.
\<close>

definition s_PhysicsInterface :: PhysicsWrapper where
  "s_PhysicsInterface = \<lparr>m_pActualPhysicsModule = None, m_pActualPhysicsInterface = None\<rparr>"

text \<open>\<^verbatim>\<open>PhysicsWrapper::InitWrapper\<close>: the flag it returns, the object and the events.\<close>

definition PhysicsWrapper_InitWrapper ::
  "platform \<Rightarrow> PhysicsWrapper \<Rightarrow> event list \<Rightarrow> bool \<times> PhysicsWrapper \<times> event list" where
  "PhysicsWrapper_InitWrapper h this tr =
     (if m_pActualPhysicsInterface this \<noteq> None then (True, this, tr)
      else
        let pModuleName = GetModuleFromCPULevel (DLL_EXT_STRING h) (GetCPULevel (GetCPUID h))
        in case call_Sys_LoadInterface h pModuleName (VPHYSICS_INTERFACE_VERSION h)
                  (m_pActualPhysicsModule this) (m_pActualPhysicsInterface this) tr of
             (ok, pModule, pInterface, tr) \<Rightarrow>
               let this = this\<lparr>m_pActualPhysicsModule := pModule,
                                m_pActualPhysicsInterface := pInterface\<rparr>
               in if \<not> ok then (False, this, tr) else (True, this, tr))"

definition PhysicsWrapper_Connect ::
  "platform \<Rightarrow> PhysicsWrapper \<Rightarrow> ptr \<Rightarrow> event list \<Rightarrow> PhysicsWrapper result" where
  "PhysicsWrapper_Connect h this factory tr =
     (case PhysicsWrapper_InitWrapper h this tr of
        (ok, this, tr) \<Rightarrow>
          if \<not> ok then (Inr (RetBool False), this, tr)
          else m_pActualPhysicsInterface_arrow h this (IPhysics_Connect factory) tr)"

definition PhysicsWrapper_Disconnect ::
  "platform \<Rightarrow> PhysicsWrapper \<Rightarrow> event list \<Rightarrow> PhysicsWrapper result" where
  "PhysicsWrapper_Disconnect h this tr =
     (case m_pActualPhysicsInterface_arrow h this IPhysics_Disconnect tr of
        (Inl f, this, tr) \<Rightarrow> (Inl f, this, tr)
      | (Inr v, this, tr) \<Rightarrow>
          (Inr RetVoid, this, Sys_UnloadModule (m_pActualPhysicsModule this) tr))"

definition PhysicsWrapper_QueryInterface ::
  "platform \<Rightarrow> PhysicsWrapper \<Rightarrow> ptr \<Rightarrow> event list \<Rightarrow> PhysicsWrapper result" where
  "PhysicsWrapper_QueryInterface h this pInterfaceName tr =
     (case PhysicsWrapper_InitWrapper h this tr of
        (ok, this, tr) \<Rightarrow>
          if \<not> ok then (Inr (RetPtr None), this, tr)
          else m_pActualPhysicsInterface_arrow h this (IPhysics_QueryInterface pInterfaceName) tr)"

definition PhysicsWrapper_Init ::
  "platform \<Rightarrow> PhysicsWrapper \<Rightarrow> event list \<Rightarrow>
   PhysicsWrapper result" where
  "PhysicsWrapper_Init h this tr =
     m_pActualPhysicsInterface_arrow h this IPhysics_Init tr"

definition PhysicsWrapper_Shutdown ::
  "platform \<Rightarrow> PhysicsWrapper \<Rightarrow> event list \<Rightarrow>
   PhysicsWrapper result" where
  "PhysicsWrapper_Shutdown h this tr =
     discard
      (m_pActualPhysicsInterface_arrow h this IPhysics_Shutdown tr)"

definition PhysicsWrapper_CreateEnvironment ::
  "platform \<Rightarrow> PhysicsWrapper \<Rightarrow> event list \<Rightarrow>
   PhysicsWrapper result" where
  "PhysicsWrapper_CreateEnvironment h this tr =
     m_pActualPhysicsInterface_arrow h this IPhysics_CreateEnvironment tr"

definition PhysicsWrapper_DestroyEnvironment ::
  "platform \<Rightarrow> PhysicsWrapper \<Rightarrow> ptr \<Rightarrow> event list \<Rightarrow>
   PhysicsWrapper result" where
  "PhysicsWrapper_DestroyEnvironment h this pEnvironment tr =
     discard
      (m_pActualPhysicsInterface_arrow h this (IPhysics_DestroyEnvironment pEnvironment) tr)"

definition PhysicsWrapper_GetActiveEnvironmentByIndex ::
  "platform \<Rightarrow> PhysicsWrapper \<Rightarrow> int32 \<Rightarrow> event list \<Rightarrow>
   PhysicsWrapper result" where
  "PhysicsWrapper_GetActiveEnvironmentByIndex h this index' tr =
     m_pActualPhysicsInterface_arrow h this
       (IPhysics_GetActiveEnvironmentByIndex index') tr"

definition PhysicsWrapper_CreateObjectPairHash ::
  "platform \<Rightarrow> PhysicsWrapper \<Rightarrow> event list \<Rightarrow>
   PhysicsWrapper result" where
  "PhysicsWrapper_CreateObjectPairHash h this tr =
     m_pActualPhysicsInterface_arrow h this IPhysics_CreateObjectPairHash tr"

definition PhysicsWrapper_DestroyObjectPairHash ::
  "platform \<Rightarrow> PhysicsWrapper \<Rightarrow> ptr \<Rightarrow> event list \<Rightarrow>
   PhysicsWrapper result" where
  "PhysicsWrapper_DestroyObjectPairHash h this pHash tr =
     discard
      (m_pActualPhysicsInterface_arrow h this (IPhysics_DestroyObjectPairHash pHash) tr)"

definition PhysicsWrapper_FindOrCreateCollisionSet ::
  "platform \<Rightarrow> PhysicsWrapper \<Rightarrow> uint32 \<Rightarrow> int32 \<Rightarrow>
   event list \<Rightarrow> PhysicsWrapper result" where
  "PhysicsWrapper_FindOrCreateCollisionSet h this id' maxElementCount tr =
     m_pActualPhysicsInterface_arrow h this
       (IPhysics_FindOrCreateCollisionSet id' maxElementCount) tr"

definition PhysicsWrapper_FindCollisionSet ::
  "platform \<Rightarrow> PhysicsWrapper \<Rightarrow> uint32 \<Rightarrow> event list \<Rightarrow>
   PhysicsWrapper result" where
  "PhysicsWrapper_FindCollisionSet h this id' tr =
     m_pActualPhysicsInterface_arrow h this (IPhysics_FindCollisionSet id') tr"

definition PhysicsWrapper_DestroyAllCollisionSets ::
  "platform \<Rightarrow> PhysicsWrapper \<Rightarrow> event list \<Rightarrow>
   PhysicsWrapper result" where
  "PhysicsWrapper_DestroyAllCollisionSets h this tr =
     discard
      (m_pActualPhysicsInterface_arrow h this IPhysics_DestroyAllCollisionSets tr)"

text \<open>
  The wrapper is reached through the interface it implements (every method is declared
  \<^verbatim>\<open>override\<close>): a call of a method of \<^verbatim>\<open>IPhysics\<close> on the wrapper runs the method of the
  same name.
\<close>

fun PhysicsWrapper_vtable ::
  "platform \<Rightarrow> PhysicsWrapper \<Rightarrow> IPhysics_call \<Rightarrow> event list \<Rightarrow> PhysicsWrapper result" where
  "PhysicsWrapper_vtable h this (IPhysics_Connect factory) tr =
     PhysicsWrapper_Connect h this factory tr"
| "PhysicsWrapper_vtable h this (IPhysics_Disconnect) tr = PhysicsWrapper_Disconnect h this tr"
| "PhysicsWrapper_vtable h this (IPhysics_Init) tr = PhysicsWrapper_Init h this tr"
| "PhysicsWrapper_vtable h this (IPhysics_Shutdown) tr = PhysicsWrapper_Shutdown h this tr"
| "PhysicsWrapper_vtable h this (IPhysics_QueryInterface pInterfaceName) tr =
     PhysicsWrapper_QueryInterface h this pInterfaceName tr"
| "PhysicsWrapper_vtable h this (IPhysics_CreateEnvironment) tr =
     PhysicsWrapper_CreateEnvironment h this tr"
| "PhysicsWrapper_vtable h this (IPhysics_DestroyEnvironment pEnvironment) tr =
     PhysicsWrapper_DestroyEnvironment h this pEnvironment tr"
| "PhysicsWrapper_vtable h this (IPhysics_GetActiveEnvironmentByIndex index') tr =
     PhysicsWrapper_GetActiveEnvironmentByIndex h this index' tr"
| "PhysicsWrapper_vtable h this (IPhysics_CreateObjectPairHash) tr =
     PhysicsWrapper_CreateObjectPairHash h this tr"
| "PhysicsWrapper_vtable h this (IPhysics_DestroyObjectPairHash pHash) tr =
     PhysicsWrapper_DestroyObjectPairHash h this pHash tr"
| "PhysicsWrapper_vtable h this (IPhysics_FindOrCreateCollisionSet id' maxElementCount) tr =
     PhysicsWrapper_FindOrCreateCollisionSet h this id' maxElementCount tr"
| "PhysicsWrapper_vtable h this (IPhysics_FindCollisionSet id') tr =
     PhysicsWrapper_FindCollisionSet h this id' tr"
| "PhysicsWrapper_vtable h this (IPhysics_DestroyAllCollisionSets) tr =
     PhysicsWrapper_DestroyAllCollisionSets h this tr"

text \<open>A caller's sequence of calls on the wrapper; a fault ends it.\<close>

fun PhysicsWrapper_run ::
  "platform \<Rightarrow> PhysicsWrapper \<Rightarrow> IPhysics_call list \<Rightarrow> event list \<Rightarrow>
   (fault + ret) list \<times> PhysicsWrapper \<times> event list" where
  "PhysicsWrapper_run h this [] tr = ([], this, tr)"
| "PhysicsWrapper_run h this (c # cs) tr =
     (case PhysicsWrapper_vtable h this c tr of
        (Inl f, this, tr) \<Rightarrow> ([Inl f], this, tr)
      | (Inr v, this, tr) \<Rightarrow>
          (case PhysicsWrapper_run h this cs tr of (rs, this, tr) \<Rightarrow> (Inr v # rs, this, tr)))"

text \<open>\<open>n\<close> resolve attempts in a row on the same object, with the flag of each.\<close>

fun PhysicsWrapper_InitWrapper_repeat ::
  "platform \<Rightarrow> nat \<Rightarrow> PhysicsWrapper \<Rightarrow> event list \<Rightarrow> bool list \<times> PhysicsWrapper \<times> event list" where
  "PhysicsWrapper_InitWrapper_repeat h 0 this tr = ([], this, tr)"
| "PhysicsWrapper_InitWrapper_repeat h (Suc n) this tr =
     (case PhysicsWrapper_InitWrapper h this tr of
        (ok, this, tr) \<Rightarrow>
          (case PhysicsWrapper_InitWrapper_repeat h n this tr of
             (oks, this, tr) \<Rightarrow> (ok # oks, this, tr)))"

section \<open>The surface-properties facade: \<^verbatim>\<open>PhysicsSurfacePropsWrapper\<close>\<close>

record PhysicsSurfacePropsWrapper =
  m_pActualPhysicsSurfacePropsModule :: ptr
  m_pActualPhysicsSurfacePropsInterface :: ptr

definition m_pActualPhysicsSurfacePropsInterface_arrow ::
  "platform \<Rightarrow> PhysicsSurfacePropsWrapper \<Rightarrow> IPhysicsSurfaceProps_call \<Rightarrow> event list \<Rightarrow>
   PhysicsSurfacePropsWrapper result" where
  "m_pActualPhysicsSurfacePropsInterface_arrow h this c tr =
     (case m_pActualPhysicsSurfacePropsInterface this of
        None \<Rightarrow> (Inl NullDereference, this, tr)
      | Some p \<Rightarrow>
          (Inr (IPhysicsSurfaceProps_impl h tr p c), this, tr @ [IPhysicsSurfaceProps_vcall p c]))"

text \<open>
  The constructor. It is given the storage of the object as it is before construction and
  initialises no member itself: it reads \<^verbatim>\<open>m_pActualPhysicsSurfacePropsInterface\<close> and
  returns if that is not null. When the load fails it prints a message and returns as
  well: a constructor has no value to return.
\<close>

definition PhysicsSurfacePropsWrapper_ctor ::
  "platform \<Rightarrow> PhysicsSurfacePropsWrapper \<Rightarrow> event list \<Rightarrow>
   PhysicsSurfacePropsWrapper \<times> event list" where
  "PhysicsSurfacePropsWrapper_ctor h this tr =
     (let tr = Msg_Debug_Entering h ''PhysicsSurfacePropsWrapper'' ''PhysicsSurfacePropsWrapper'' tr
      in if m_pActualPhysicsSurfacePropsInterface this \<noteq> None then (this, tr)
         else
           let pModuleName = GetModuleFromCPULevel (DLL_EXT_STRING h) (GetCPULevel (GetCPUID h))
           in case call_Sys_LoadInterface h pModuleName (VPHYSICS_SURFACEPROPS_INTERFACE_VERSION h)
                     (m_pActualPhysicsSurfacePropsModule this)
                     (m_pActualPhysicsSurfacePropsInterface this) tr of
                (ok, pModule, pInterface, tr) \<Rightarrow>
                  let this = this\<lparr>m_pActualPhysicsSurfacePropsModule := pModule,
                                   m_pActualPhysicsSurfacePropsInterface := pInterface\<rparr>
                  in if \<not> ok then (this, Msg_Failed_to_load pModuleName tr) else (this, tr))"

definition PhysicsSurfacePropsWrapper_dtor ::
  "platform \<Rightarrow> PhysicsSurfacePropsWrapper \<Rightarrow> event list \<Rightarrow> event list" where
  "PhysicsSurfacePropsWrapper_dtor h this tr =
     (let tr = Msg_Debug_Entering h ''PhysicsSurfacePropsWrapper'' ''~PhysicsSurfacePropsWrapper'' tr
      in Sys_UnloadModule (m_pActualPhysicsSurfacePropsModule this) tr)"

text \<open>
  \<^verbatim>\<open>PhysicsSurfacePropsWrapper PhysicsSurfacePropsWrapper::s_PhysicsSurfaceProps = {};\<close> The
  storage of a static object is zeroed before its constructor runs, at program start.
\<close>

definition s_PhysicsSurfaceProps ::
  "platform \<Rightarrow> event list \<Rightarrow> PhysicsSurfacePropsWrapper \<times> event list" where
  "s_PhysicsSurfaceProps h tr =
     PhysicsSurfacePropsWrapper_ctor h
       \<lparr>m_pActualPhysicsSurfacePropsModule = None, m_pActualPhysicsSurfacePropsInterface = None\<rparr> tr"

definition PhysicsSurfacePropsWrapper_ParseSurfaceData ::
  "platform \<Rightarrow> PhysicsSurfacePropsWrapper \<Rightarrow> ptr \<Rightarrow> ptr \<Rightarrow>
   event list \<Rightarrow> PhysicsSurfacePropsWrapper result" where
  "PhysicsSurfacePropsWrapper_ParseSurfaceData h this pFilename pTextfile tr =
     (let tr = Msg_Debug_Entering h ''PhysicsSurfacePropsWrapper'' ''ParseSurfaceData'' tr
      in m_pActualPhysicsSurfacePropsInterface_arrow h this
          (IPhysicsSurfaceProps_ParseSurfaceData pFilename pTextfile) tr)"

definition PhysicsSurfacePropsWrapper_SurfacePropCount ::
  "platform \<Rightarrow> PhysicsSurfacePropsWrapper \<Rightarrow> event list \<Rightarrow>
   PhysicsSurfacePropsWrapper result" where
  "PhysicsSurfacePropsWrapper_SurfacePropCount h this tr =
     (let tr = Msg_Debug_Entering h ''PhysicsSurfacePropsWrapper'' ''SurfacePropCount'' tr
      in m_pActualPhysicsSurfacePropsInterface_arrow h this
          IPhysicsSurfaceProps_SurfacePropCount tr)"

definition PhysicsSurfacePropsWrapper_GetSurfaceIndex ::
  "platform \<Rightarrow> PhysicsSurfacePropsWrapper \<Rightarrow> ptr \<Rightarrow> event list \<Rightarrow>
   PhysicsSurfacePropsWrapper result" where
  "PhysicsSurfacePropsWrapper_GetSurfaceIndex h this pSurfacePropName tr =
     (let tr = Msg_Debug_Entering h ''PhysicsSurfacePropsWrapper'' ''GetSurfaceIndex'' tr
      in m_pActualPhysicsSurfacePropsInterface_arrow h this
          (IPhysicsSurfaceProps_GetSurfaceIndex pSurfacePropName) tr)"

definition PhysicsSurfacePropsWrapper_GetPhysicsProperties ::
  "platform \<Rightarrow> PhysicsSurfacePropsWrapper \<Rightarrow> int32 \<Rightarrow> ptr \<Rightarrow>
   ptr \<Rightarrow> ptr \<Rightarrow> ptr \<Rightarrow> event list \<Rightarrow>
   PhysicsSurfacePropsWrapper result" where
  "PhysicsSurfacePropsWrapper_GetPhysicsProperties h this surfaceDataIndex density thickness friction elasticity tr =
     (let tr = Msg_Debug_Entering h ''PhysicsSurfacePropsWrapper'' ''GetPhysicsProperties'' tr
      in discard
         (m_pActualPhysicsSurfacePropsInterface_arrow h this
          (IPhysicsSurfaceProps_GetPhysicsProperties surfaceDataIndex density thickness friction elasticity) tr))"

definition PhysicsSurfacePropsWrapper_GetSurfaceData ::
  "platform \<Rightarrow> PhysicsSurfacePropsWrapper \<Rightarrow> int32 \<Rightarrow>
   event list \<Rightarrow> PhysicsSurfacePropsWrapper result" where
  "PhysicsSurfacePropsWrapper_GetSurfaceData h this surfaceDataIndex tr =
     (let tr = Msg_Debug_Entering h ''PhysicsSurfacePropsWrapper'' ''GetSurfaceData'' tr
      in m_pActualPhysicsSurfacePropsInterface_arrow h this
          (IPhysicsSurfaceProps_GetSurfaceData surfaceDataIndex) tr)"

definition PhysicsSurfacePropsWrapper_GetString ::
  "platform \<Rightarrow> PhysicsSurfacePropsWrapper \<Rightarrow> uint16 \<Rightarrow>
   event list \<Rightarrow> PhysicsSurfacePropsWrapper result" where
  "PhysicsSurfacePropsWrapper_GetString h this stringTableIndex tr =
     (let tr = Msg_Debug_Entering h ''PhysicsSurfacePropsWrapper'' ''GetString'' tr
      in m_pActualPhysicsSurfacePropsInterface_arrow h this
          (IPhysicsSurfaceProps_GetString stringTableIndex) tr)"

definition PhysicsSurfacePropsWrapper_GetPropName ::
  "platform \<Rightarrow> PhysicsSurfacePropsWrapper \<Rightarrow> int32 \<Rightarrow>
   event list \<Rightarrow> PhysicsSurfacePropsWrapper result" where
  "PhysicsSurfacePropsWrapper_GetPropName h this surfaceDataIndex tr =
     (let tr = Msg_Debug_Entering h ''PhysicsSurfacePropsWrapper'' ''GetPropName'' tr
      in m_pActualPhysicsSurfacePropsInterface_arrow h this
          (IPhysicsSurfaceProps_GetPropName surfaceDataIndex) tr)"

definition PhysicsSurfacePropsWrapper_SetWorldMaterialIndexTable ::
  "platform \<Rightarrow> PhysicsSurfacePropsWrapper \<Rightarrow> ptr \<Rightarrow> int32 \<Rightarrow>
   event list \<Rightarrow> PhysicsSurfacePropsWrapper result" where
  "PhysicsSurfacePropsWrapper_SetWorldMaterialIndexTable h this pMapArray mapSize tr =
     (let tr = Msg_Debug_Entering h ''PhysicsSurfacePropsWrapper'' ''SetWorldMaterialIndexTable'' tr
      in discard
         (m_pActualPhysicsSurfacePropsInterface_arrow h this
          (IPhysicsSurfaceProps_SetWorldMaterialIndexTable pMapArray mapSize) tr))"

definition PhysicsSurfacePropsWrapper_GetPhysicsParameters ::
  "platform \<Rightarrow> PhysicsSurfacePropsWrapper \<Rightarrow> int32 \<Rightarrow> ptr \<Rightarrow>
   event list \<Rightarrow> PhysicsSurfacePropsWrapper result" where
  "PhysicsSurfacePropsWrapper_GetPhysicsParameters h this surfaceDataIndex pParamsOut tr =
     (let tr = Msg_Debug_Entering h ''PhysicsSurfacePropsWrapper'' ''GetPhysicsParameters'' tr
      in discard
         (m_pActualPhysicsSurfacePropsInterface_arrow h this
          (IPhysicsSurfaceProps_GetPhysicsParameters surfaceDataIndex pParamsOut) tr))"

definition PhysicsSurfacePropsWrapper_GetMaterialIndexDataOps ::
  "platform \<Rightarrow> PhysicsSurfacePropsWrapper \<Rightarrow> event list \<Rightarrow>
   PhysicsSurfacePropsWrapper result" where
  "PhysicsSurfacePropsWrapper_GetMaterialIndexDataOps h this tr =
     (let tr = Msg_Debug_Entering h ''PhysicsSurfacePropsWrapper'' ''GetMaterialIndexDataOps'' tr
      in m_pActualPhysicsSurfacePropsInterface_arrow h this
          IPhysicsSurfaceProps_GetMaterialIndexDataOps tr)"

definition PhysicsSurfacePropsWrapper_GetIVPMaterial ::
  "platform \<Rightarrow> PhysicsSurfacePropsWrapper \<Rightarrow> int32 \<Rightarrow>
   event list \<Rightarrow> PhysicsSurfacePropsWrapper result" where
  "PhysicsSurfacePropsWrapper_GetIVPMaterial h this nIndex tr =
     (let tr = Msg_Debug_Entering h ''PhysicsSurfacePropsWrapper'' ''GetIVPMaterial'' tr
      in m_pActualPhysicsSurfacePropsInterface_arrow h this
          (IPhysicsSurfaceProps_GetIVPMaterial nIndex) tr)"

definition PhysicsSurfacePropsWrapper_GetIVPMaterialIndex ::
  "platform \<Rightarrow> PhysicsSurfacePropsWrapper \<Rightarrow> ptr \<Rightarrow> event list \<Rightarrow>
   PhysicsSurfacePropsWrapper result" where
  "PhysicsSurfacePropsWrapper_GetIVPMaterialIndex h this pMaterial tr =
     (let tr = Msg_Debug_Entering h ''PhysicsSurfacePropsWrapper'' ''GetIVPMaterialIndex'' tr
      in m_pActualPhysicsSurfacePropsInterface_arrow h this
          (IPhysicsSurfaceProps_GetIVPMaterialIndex pMaterial) tr)"

definition PhysicsSurfacePropsWrapper_GetIVPManager ::
  "platform \<Rightarrow> PhysicsSurfacePropsWrapper \<Rightarrow> event list \<Rightarrow>
   PhysicsSurfacePropsWrapper result" where
  "PhysicsSurfacePropsWrapper_GetIVPManager h this tr =
     (let tr = Msg_Debug_Entering h ''PhysicsSurfacePropsWrapper'' ''GetIVPManager'' tr
      in m_pActualPhysicsSurfacePropsInterface_arrow h this
          IPhysicsSurfaceProps_GetIVPManager tr)"

definition PhysicsSurfacePropsWrapper_RemapIVPMaterialIndex ::
  "platform \<Rightarrow> PhysicsSurfacePropsWrapper \<Rightarrow> int32 \<Rightarrow>
   event list \<Rightarrow> PhysicsSurfacePropsWrapper result" where
  "PhysicsSurfacePropsWrapper_RemapIVPMaterialIndex h this nIndex tr =
     (let tr = Msg_Debug_Entering h ''PhysicsSurfacePropsWrapper'' ''RemapIVPMaterialIndex'' tr
      in m_pActualPhysicsSurfacePropsInterface_arrow h this
          (IPhysicsSurfaceProps_RemapIVPMaterialIndex nIndex) tr)"

definition PhysicsSurfacePropsWrapper_GetReservedMaterialName ::
  "platform \<Rightarrow> PhysicsSurfacePropsWrapper \<Rightarrow> int32 \<Rightarrow>
   event list \<Rightarrow> PhysicsSurfacePropsWrapper result" where
  "PhysicsSurfacePropsWrapper_GetReservedMaterialName h this nMaterialIndex tr =
     (let tr = Msg_Debug_Entering h ''PhysicsSurfacePropsWrapper'' ''GetReservedMaterialName'' tr
      in m_pActualPhysicsSurfacePropsInterface_arrow h this
          (IPhysicsSurfaceProps_GetReservedMaterialName nMaterialIndex) tr)"

fun PhysicsSurfacePropsWrapper_vtable ::
  "platform \<Rightarrow> PhysicsSurfacePropsWrapper \<Rightarrow> IPhysicsSurfaceProps_call \<Rightarrow> event list \<Rightarrow> PhysicsSurfacePropsWrapper result" where
  "PhysicsSurfacePropsWrapper_vtable h this (IPhysicsSurfaceProps_ParseSurfaceData pFilename pTextfile) tr =
     PhysicsSurfacePropsWrapper_ParseSurfaceData h this pFilename pTextfile tr"
| "PhysicsSurfacePropsWrapper_vtable h this (IPhysicsSurfaceProps_SurfacePropCount) tr =
     PhysicsSurfacePropsWrapper_SurfacePropCount h this tr"
| "PhysicsSurfacePropsWrapper_vtable h this (IPhysicsSurfaceProps_GetSurfaceIndex pSurfacePropName) tr =
     PhysicsSurfacePropsWrapper_GetSurfaceIndex h this pSurfacePropName tr"
| "PhysicsSurfacePropsWrapper_vtable h this (IPhysicsSurfaceProps_GetPhysicsProperties surfaceDataIndex density thickness friction elasticity) tr =
     PhysicsSurfacePropsWrapper_GetPhysicsProperties h this surfaceDataIndex density thickness friction elasticity tr"
| "PhysicsSurfacePropsWrapper_vtable h this (IPhysicsSurfaceProps_GetSurfaceData surfaceDataIndex) tr =
     PhysicsSurfacePropsWrapper_GetSurfaceData h this surfaceDataIndex tr"
| "PhysicsSurfacePropsWrapper_vtable h this (IPhysicsSurfaceProps_GetString stringTableIndex) tr =
     PhysicsSurfacePropsWrapper_GetString h this stringTableIndex tr"
| "PhysicsSurfacePropsWrapper_vtable h this (IPhysicsSurfaceProps_GetPropName surfaceDataIndex) tr =
     PhysicsSurfacePropsWrapper_GetPropName h this surfaceDataIndex tr"
| "PhysicsSurfacePropsWrapper_vtable h this (IPhysicsSurfaceProps_SetWorldMaterialIndexTable pMapArray mapSize) tr =
     PhysicsSurfacePropsWrapper_SetWorldMaterialIndexTable h this pMapArray mapSize tr"
| "PhysicsSurfacePropsWrapper_vtable h this (IPhysicsSurfaceProps_GetPhysicsParameters surfaceDataIndex pParamsOut) tr =
     PhysicsSurfacePropsWrapper_GetPhysicsParameters h this surfaceDataIndex pParamsOut tr"
| "PhysicsSurfacePropsWrapper_vtable h this (IPhysicsSurfaceProps_GetMaterialIndexDataOps) tr =
     PhysicsSurfacePropsWrapper_GetMaterialIndexDataOps h this tr"
| "PhysicsSurfacePropsWrapper_vtable h this (IPhysicsSurfaceProps_GetIVPMaterial nIndex) tr =
     PhysicsSurfacePropsWrapper_GetIVPMaterial h this nIndex tr"
| "PhysicsSurfacePropsWrapper_vtable h this (IPhysicsSurfaceProps_GetIVPMaterialIndex pMaterial) tr =
     PhysicsSurfacePropsWrapper_GetIVPMaterialIndex h this pMaterial tr"
| "PhysicsSurfacePropsWrapper_vtable h this (IPhysicsSurfaceProps_GetIVPManager) tr =
     PhysicsSurfacePropsWrapper_GetIVPManager h this tr"
| "PhysicsSurfacePropsWrapper_vtable h this (IPhysicsSurfaceProps_RemapIVPMaterialIndex nIndex) tr =
     PhysicsSurfacePropsWrapper_RemapIVPMaterialIndex h this nIndex tr"
| "PhysicsSurfacePropsWrapper_vtable h this (IPhysicsSurfaceProps_GetReservedMaterialName nMaterialIndex) tr =
     PhysicsSurfacePropsWrapper_GetReservedMaterialName h this nMaterialIndex tr"

section \<open>The collision facade: \<^verbatim>\<open>PhysicsCollisionWrapper\<close>\<close>

record PhysicsCollisionWrapper =
  m_pActualPhysicsCollisionModule :: ptr
  m_pActualPhysicsCollisionInterface :: ptr

definition m_pActualPhysicsCollisionInterface_arrow ::
  "platform \<Rightarrow> PhysicsCollisionWrapper \<Rightarrow> IPhysicsCollision_call \<Rightarrow> event list \<Rightarrow>
   PhysicsCollisionWrapper result" where
  "m_pActualPhysicsCollisionInterface_arrow h this c tr =
     (case m_pActualPhysicsCollisionInterface this of
        None \<Rightarrow> (Inl NullDereference, this, tr)
      | Some p \<Rightarrow>
          (Inr (IPhysicsCollision_impl h tr p c), this, tr @ [IPhysicsCollision_vcall p c]))"

definition PhysicsCollisionWrapper_ctor ::
  "platform \<Rightarrow> PhysicsCollisionWrapper \<Rightarrow> event list \<Rightarrow>
   PhysicsCollisionWrapper \<times> event list" where
  "PhysicsCollisionWrapper_ctor h this tr =
     (let tr = Msg_Debug_Entering h ''PhysicsCollisionWrapper'' ''PhysicsCollisionWrapper'' tr
      in if m_pActualPhysicsCollisionInterface this \<noteq> None then (this, tr)
         else
           let pModuleName = GetModuleFromCPULevel (DLL_EXT_STRING h) (GetCPULevel (GetCPUID h))
           in case call_Sys_LoadInterface h pModuleName (VPHYSICS_COLLISION_INTERFACE_VERSION h)
                     (m_pActualPhysicsCollisionModule this)
                     (m_pActualPhysicsCollisionInterface this) tr of
                (ok, pModule, pInterface, tr) \<Rightarrow>
                  let this = this\<lparr>m_pActualPhysicsCollisionModule := pModule,
                                   m_pActualPhysicsCollisionInterface := pInterface\<rparr>
                  in if \<not> ok then (this, Msg_Failed_to_load pModuleName tr) else (this, tr))"

definition PhysicsCollisionWrapper_dtor ::
  "platform \<Rightarrow> PhysicsCollisionWrapper \<Rightarrow> event list \<Rightarrow> event list" where
  "PhysicsCollisionWrapper_dtor h this tr =
     (let tr = Msg_Debug_Entering h ''PhysicsCollisionWrapper'' ''~PhysicsCollisionWrapper'' tr
      in Sys_UnloadModule (m_pActualPhysicsCollisionModule this) tr)"

definition s_PhysicsCollision ::
  "platform \<Rightarrow> event list \<Rightarrow> PhysicsCollisionWrapper \<times> event list" where
  "s_PhysicsCollision h tr =
     PhysicsCollisionWrapper_ctor h
       \<lparr>m_pActualPhysicsCollisionModule = None, m_pActualPhysicsCollisionInterface = None\<rparr> tr"

definition PhysicsCollisionWrapper_ConvexFromVerts ::
  "platform \<Rightarrow> PhysicsCollisionWrapper \<Rightarrow> ptr \<Rightarrow> int32 \<Rightarrow>
   event list \<Rightarrow> PhysicsCollisionWrapper result" where
  "PhysicsCollisionWrapper_ConvexFromVerts h this pVerts vertCount tr =
     (let tr = Msg_Debug_Entering h ''PhysicsCollisionWrapper'' ''ConvexFromVerts'' tr
      in m_pActualPhysicsCollisionInterface_arrow h this
          (IPhysicsCollision_ConvexFromVerts pVerts vertCount) tr)"

definition PhysicsCollisionWrapper_ConvexFromPlanes ::
  "platform \<Rightarrow> PhysicsCollisionWrapper \<Rightarrow> ptr \<Rightarrow> int32 \<Rightarrow>
   float \<Rightarrow> event list \<Rightarrow> PhysicsCollisionWrapper result" where
  "PhysicsCollisionWrapper_ConvexFromPlanes h this pPlanes planeCount mergeDistance tr =
     (let tr = Msg_Debug_Entering h ''PhysicsCollisionWrapper'' ''ConvexFromPlanes'' tr
      in m_pActualPhysicsCollisionInterface_arrow h this
          (IPhysicsCollision_ConvexFromPlanes pPlanes planeCount mergeDistance) tr)"

definition PhysicsCollisionWrapper_ConvexVolume ::
  "platform \<Rightarrow> PhysicsCollisionWrapper \<Rightarrow> ptr \<Rightarrow> event list \<Rightarrow>
   PhysicsCollisionWrapper result" where
  "PhysicsCollisionWrapper_ConvexVolume h this pConvex tr =
     (let tr = Msg_Debug_Entering h ''PhysicsCollisionWrapper'' ''ConvexVolume'' tr
      in m_pActualPhysicsCollisionInterface_arrow h this
          (IPhysicsCollision_ConvexVolume pConvex) tr)"

definition PhysicsCollisionWrapper_ConvexSurfaceArea ::
  "platform \<Rightarrow> PhysicsCollisionWrapper \<Rightarrow> ptr \<Rightarrow> event list \<Rightarrow>
   PhysicsCollisionWrapper result" where
  "PhysicsCollisionWrapper_ConvexSurfaceArea h this pConvex tr =
     (let tr = Msg_Debug_Entering h ''PhysicsCollisionWrapper'' ''ConvexSurfaceArea'' tr
      in m_pActualPhysicsCollisionInterface_arrow h this
          (IPhysicsCollision_ConvexSurfaceArea pConvex) tr)"

definition PhysicsCollisionWrapper_SetConvexGameData ::
  "platform \<Rightarrow> PhysicsCollisionWrapper \<Rightarrow> ptr \<Rightarrow> uint32 \<Rightarrow>
   event list \<Rightarrow> PhysicsCollisionWrapper result" where
  "PhysicsCollisionWrapper_SetConvexGameData h this pConvex gameData tr =
     (let tr = Msg_Debug_Entering h ''PhysicsCollisionWrapper'' ''SetConvexGameData'' tr
      in discard
         (m_pActualPhysicsCollisionInterface_arrow h this
          (IPhysicsCollision_SetConvexGameData pConvex gameData) tr))"

definition PhysicsCollisionWrapper_ConvexFree ::
  "platform \<Rightarrow> PhysicsCollisionWrapper \<Rightarrow> ptr \<Rightarrow> event list \<Rightarrow>
   PhysicsCollisionWrapper result" where
  "PhysicsCollisionWrapper_ConvexFree h this pConvex tr =
     discard
      (m_pActualPhysicsCollisionInterface_arrow h this
       (IPhysicsCollision_ConvexFree pConvex) tr)"

definition PhysicsCollisionWrapper_BBoxToConvex ::
  "platform \<Rightarrow> PhysicsCollisionWrapper \<Rightarrow> ref \<Rightarrow> ref \<Rightarrow>
   event list \<Rightarrow> PhysicsCollisionWrapper result" where
  "PhysicsCollisionWrapper_BBoxToConvex h this mins maxs tr =
     (let tr = Msg_Debug_Entering h ''PhysicsCollisionWrapper'' ''BBoxToConvex'' tr
      in m_pActualPhysicsCollisionInterface_arrow h this
          (IPhysicsCollision_BBoxToConvex mins maxs) tr)"

definition PhysicsCollisionWrapper_ConvexFromConvexPolyhedron ::
  "platform \<Rightarrow> PhysicsCollisionWrapper \<Rightarrow> ref \<Rightarrow> event list \<Rightarrow>
   PhysicsCollisionWrapper result" where
  "PhysicsCollisionWrapper_ConvexFromConvexPolyhedron h this ConvexPolyhedron tr =
     (let tr = Msg_Debug_Entering h ''PhysicsCollisionWrapper'' ''ConvexFromConvexPolyhedron'' tr
      in m_pActualPhysicsCollisionInterface_arrow h this
          (IPhysicsCollision_ConvexFromConvexPolyhedron ConvexPolyhedron) tr)"

definition PhysicsCollisionWrapper_ConvexesFromConvexPolygon ::
  "platform \<Rightarrow> PhysicsCollisionWrapper \<Rightarrow> ref \<Rightarrow> ptr \<Rightarrow>
   int32 \<Rightarrow> ptr \<Rightarrow> event list \<Rightarrow>
   PhysicsCollisionWrapper result" where
  "PhysicsCollisionWrapper_ConvexesFromConvexPolygon h this vPolyNormal pPoints iPointCount pOutput tr =
     (let tr = Msg_Debug_Entering h ''PhysicsCollisionWrapper'' ''ConvexesFromConvexPolygon'' tr
      in discard
         (m_pActualPhysicsCollisionInterface_arrow h this
          (IPhysicsCollision_ConvexesFromConvexPolygon vPolyNormal pPoints iPointCount pOutput) tr))"

definition PhysicsCollisionWrapper_PolysoupCreate ::
  "platform \<Rightarrow> PhysicsCollisionWrapper \<Rightarrow> event list \<Rightarrow>
   PhysicsCollisionWrapper result" where
  "PhysicsCollisionWrapper_PolysoupCreate h this tr =
     (let tr = Msg_Debug_Entering h ''PhysicsCollisionWrapper'' ''PolysoupCreate'' tr
      in m_pActualPhysicsCollisionInterface_arrow h this IPhysicsCollision_PolysoupCreate tr)"

definition PhysicsCollisionWrapper_PolysoupDestroy ::
  "platform \<Rightarrow> PhysicsCollisionWrapper \<Rightarrow> ptr \<Rightarrow> event list \<Rightarrow>
   PhysicsCollisionWrapper result" where
  "PhysicsCollisionWrapper_PolysoupDestroy h this pSoup tr =
     (let tr = Msg_Debug_Entering h ''PhysicsCollisionWrapper'' ''PolysoupDestroy'' tr
      in discard
         (m_pActualPhysicsCollisionInterface_arrow h this
          (IPhysicsCollision_PolysoupDestroy pSoup) tr))"

definition PhysicsCollisionWrapper_PolysoupAddTriangle ::
  "platform \<Rightarrow> PhysicsCollisionWrapper \<Rightarrow> ptr \<Rightarrow> ref \<Rightarrow>
   ref \<Rightarrow> ref \<Rightarrow> int32 \<Rightarrow> event list \<Rightarrow>
   PhysicsCollisionWrapper result" where
  "PhysicsCollisionWrapper_PolysoupAddTriangle h this pSoup a b c materialIndex7bits tr =
     (let tr = Msg_Debug_Entering h ''PhysicsCollisionWrapper'' ''PolysoupAddTriangle'' tr
      in discard
         (m_pActualPhysicsCollisionInterface_arrow h this
          (IPhysicsCollision_PolysoupAddTriangle pSoup a b c materialIndex7bits) tr))"

definition PhysicsCollisionWrapper_ConvertPolysoupToCollide ::
  "platform \<Rightarrow> PhysicsCollisionWrapper \<Rightarrow> ptr \<Rightarrow> bool \<Rightarrow>
   event list \<Rightarrow> PhysicsCollisionWrapper result" where
  "PhysicsCollisionWrapper_ConvertPolysoupToCollide h this pSoup useMOPP tr =
     (let tr = Msg_Debug_Entering h ''PhysicsCollisionWrapper'' ''ConvertPolysoupToCollide'' tr
      in m_pActualPhysicsCollisionInterface_arrow h this
          (IPhysicsCollision_ConvertPolysoupToCollide pSoup useMOPP) tr)"

definition PhysicsCollisionWrapper_ConvertConvexToCollide ::
  "platform \<Rightarrow> PhysicsCollisionWrapper \<Rightarrow> ptr \<Rightarrow> int32 \<Rightarrow>
   event list \<Rightarrow> PhysicsCollisionWrapper result" where
  "PhysicsCollisionWrapper_ConvertConvexToCollide h this pConvex convexCount tr =
     (let tr = Msg_Debug_Entering h ''PhysicsCollisionWrapper'' ''ConvertConvexToCollide'' tr
      in m_pActualPhysicsCollisionInterface_arrow h this
          (IPhysicsCollision_ConvertConvexToCollide pConvex convexCount) tr)"

definition PhysicsCollisionWrapper_ConvertConvexToCollideParams ::
  "platform \<Rightarrow> PhysicsCollisionWrapper \<Rightarrow> ptr \<Rightarrow> int32 \<Rightarrow>
   ref \<Rightarrow> event list \<Rightarrow> PhysicsCollisionWrapper result" where
  "PhysicsCollisionWrapper_ConvertConvexToCollideParams h this pConvex convexCount convertParams tr =
     (let tr = Msg_Debug_Entering h ''PhysicsCollisionWrapper'' ''ConvertConvexToCollideParams'' tr
      in m_pActualPhysicsCollisionInterface_arrow h this
          (IPhysicsCollision_ConvertConvexToCollideParams pConvex convexCount convertParams) tr)"

definition PhysicsCollisionWrapper_DestroyCollide ::
  "platform \<Rightarrow> PhysicsCollisionWrapper \<Rightarrow> ptr \<Rightarrow> event list \<Rightarrow>
   PhysicsCollisionWrapper result" where
  "PhysicsCollisionWrapper_DestroyCollide h this pCollide tr =
     (let tr = Msg_Debug_Entering h ''PhysicsCollisionWrapper'' ''DestroyCollide'' tr
      in discard
         (m_pActualPhysicsCollisionInterface_arrow h this
          (IPhysicsCollision_DestroyCollide pCollide) tr))"

definition PhysicsCollisionWrapper_CollideSize ::
  "platform \<Rightarrow> PhysicsCollisionWrapper \<Rightarrow> ptr \<Rightarrow> event list \<Rightarrow>
   PhysicsCollisionWrapper result" where
  "PhysicsCollisionWrapper_CollideSize h this pCollide tr =
     (let tr = Msg_Debug_Entering h ''PhysicsCollisionWrapper'' ''CollideSize'' tr
      in m_pActualPhysicsCollisionInterface_arrow h this
          (IPhysicsCollision_CollideSize pCollide) tr)"

definition PhysicsCollisionWrapper_CollideWrite ::
  "platform \<Rightarrow> PhysicsCollisionWrapper \<Rightarrow> ptr \<Rightarrow> ptr \<Rightarrow>
   bool \<Rightarrow> event list \<Rightarrow> PhysicsCollisionWrapper result" where
  "PhysicsCollisionWrapper_CollideWrite h this pDest pCollide bSwap tr =
     (let tr = Msg_Debug_Entering h ''PhysicsCollisionWrapper'' ''CollideWrite'' tr
      in m_pActualPhysicsCollisionInterface_arrow h this
          (IPhysicsCollision_CollideWrite pDest pCollide bSwap) tr)"

definition PhysicsCollisionWrapper_UnserializeCollide ::
  "platform \<Rightarrow> PhysicsCollisionWrapper \<Rightarrow> ptr \<Rightarrow> int32 \<Rightarrow>
   int32 \<Rightarrow> event list \<Rightarrow> PhysicsCollisionWrapper result" where
  "PhysicsCollisionWrapper_UnserializeCollide h this pBuffer size' index' tr =
     (let tr = Msg_Debug_Entering h ''PhysicsCollisionWrapper'' ''UnserializeCollide'' tr
      in m_pActualPhysicsCollisionInterface_arrow h this
          (IPhysicsCollision_UnserializeCollide pBuffer size' index') tr)"

definition PhysicsCollisionWrapper_CollideVolume ::
  "platform \<Rightarrow> PhysicsCollisionWrapper \<Rightarrow> ptr \<Rightarrow> event list \<Rightarrow>
   PhysicsCollisionWrapper result" where
  "PhysicsCollisionWrapper_CollideVolume h this pCollide tr =
     (let tr = Msg_Debug_Entering h ''PhysicsCollisionWrapper'' ''CollideVolume'' tr
      in m_pActualPhysicsCollisionInterface_arrow h this
          (IPhysicsCollision_CollideVolume pCollide) tr)"

definition PhysicsCollisionWrapper_CollideSurfaceArea ::
  "platform \<Rightarrow> PhysicsCollisionWrapper \<Rightarrow> ptr \<Rightarrow> event list \<Rightarrow>
   PhysicsCollisionWrapper result" where
  "PhysicsCollisionWrapper_CollideSurfaceArea h this pCollide tr =
     (let tr = Msg_Debug_Entering h ''PhysicsCollisionWrapper'' ''CollideSurfaceArea'' tr
      in m_pActualPhysicsCollisionInterface_arrow h this
          (IPhysicsCollision_CollideSurfaceArea pCollide) tr)"

definition PhysicsCollisionWrapper_CollideGetExtent ::
  "platform \<Rightarrow> PhysicsCollisionWrapper \<Rightarrow> ptr \<Rightarrow> ref \<Rightarrow>
   ref \<Rightarrow> ref \<Rightarrow> event list \<Rightarrow> PhysicsCollisionWrapper result" where
  "PhysicsCollisionWrapper_CollideGetExtent h this pCollide collideOrigin collideAngles direction tr =
     (let tr = Msg_Debug_Entering h ''PhysicsCollisionWrapper'' ''CollideGetExtent'' tr
      in m_pActualPhysicsCollisionInterface_arrow h this
          (IPhysicsCollision_CollideGetExtent pCollide collideOrigin collideAngles direction) tr)"

definition PhysicsCollisionWrapper_CollideGetAABB ::
  "platform \<Rightarrow> PhysicsCollisionWrapper \<Rightarrow> ptr \<Rightarrow> ptr \<Rightarrow>
   ptr \<Rightarrow> ref \<Rightarrow> ref \<Rightarrow> event list \<Rightarrow>
   PhysicsCollisionWrapper result" where
  "PhysicsCollisionWrapper_CollideGetAABB h this pMins pMaxs pCollide collideOrigin collideAngles tr =
     (let tr = Msg_Debug_Entering h ''PhysicsCollisionWrapper'' ''CollideGetAABB'' tr
      in discard
         (m_pActualPhysicsCollisionInterface_arrow h this
          (IPhysicsCollision_CollideGetAABB pMins pMaxs pCollide collideOrigin collideAngles) tr))"

definition PhysicsCollisionWrapper_CollideGetMassCenter ::
  "platform \<Rightarrow> PhysicsCollisionWrapper \<Rightarrow> ptr \<Rightarrow> ptr \<Rightarrow>
   event list \<Rightarrow> PhysicsCollisionWrapper result" where
  "PhysicsCollisionWrapper_CollideGetMassCenter h this pCollide pOutMassCenter tr =
     (let tr = Msg_Debug_Entering h ''PhysicsCollisionWrapper'' ''CollideGetMassCenter'' tr
      in discard
         (m_pActualPhysicsCollisionInterface_arrow h this
          (IPhysicsCollision_CollideGetMassCenter pCollide pOutMassCenter) tr))"

definition PhysicsCollisionWrapper_CollideSetMassCenter ::
  "platform \<Rightarrow> PhysicsCollisionWrapper \<Rightarrow> ptr \<Rightarrow> ref \<Rightarrow>
   event list \<Rightarrow> PhysicsCollisionWrapper result" where
  "PhysicsCollisionWrapper_CollideSetMassCenter h this pCollide massCenter tr =
     (let tr = Msg_Debug_Entering h ''PhysicsCollisionWrapper'' ''CollideSetMassCenter'' tr
      in discard
         (m_pActualPhysicsCollisionInterface_arrow h this
          (IPhysicsCollision_CollideSetMassCenter pCollide massCenter) tr))"

definition PhysicsCollisionWrapper_CollideGetOrthographicAreas ::
  "platform \<Rightarrow> PhysicsCollisionWrapper \<Rightarrow> ptr \<Rightarrow> event list \<Rightarrow>
   PhysicsCollisionWrapper result" where
  "PhysicsCollisionWrapper_CollideGetOrthographicAreas h this pCollide tr =
     (let tr = Msg_Debug_Entering h ''PhysicsCollisionWrapper'' ''CollideGetOrthographicAreas'' tr
      in m_pActualPhysicsCollisionInterface_arrow h this
          (IPhysicsCollision_CollideGetOrthographicAreas pCollide) tr)"

definition PhysicsCollisionWrapper_CollideSetOrthographicAreas ::
  "platform \<Rightarrow> PhysicsCollisionWrapper \<Rightarrow> ptr \<Rightarrow> ref \<Rightarrow>
   event list \<Rightarrow> PhysicsCollisionWrapper result" where
  "PhysicsCollisionWrapper_CollideSetOrthographicAreas h this pCollide areas tr =
     (let tr = Msg_Debug_Entering h ''PhysicsCollisionWrapper'' ''CollideSetOrthographicAreas'' tr
      in discard
         (m_pActualPhysicsCollisionInterface_arrow h this
          (IPhysicsCollision_CollideSetOrthographicAreas pCollide areas) tr))"

definition PhysicsCollisionWrapper_CollideIndex ::
  "platform \<Rightarrow> PhysicsCollisionWrapper \<Rightarrow> ptr \<Rightarrow> event list \<Rightarrow>
   PhysicsCollisionWrapper result" where
  "PhysicsCollisionWrapper_CollideIndex h this pCollide tr =
     (let tr = Msg_Debug_Entering h ''PhysicsCollisionWrapper'' ''CollideIndex'' tr
      in m_pActualPhysicsCollisionInterface_arrow h this
          (IPhysicsCollision_CollideIndex pCollide) tr)"

definition PhysicsCollisionWrapper_BBoxToCollide ::
  "platform \<Rightarrow> PhysicsCollisionWrapper \<Rightarrow> ref \<Rightarrow> ref \<Rightarrow>
   event list \<Rightarrow> PhysicsCollisionWrapper result" where
  "PhysicsCollisionWrapper_BBoxToCollide h this mins maxs tr =
     (let tr = Msg_Debug_Entering h ''PhysicsCollisionWrapper'' ''BBoxToCollide'' tr
      in m_pActualPhysicsCollisionInterface_arrow h this
          (IPhysicsCollision_BBoxToCollide mins maxs) tr)"

definition PhysicsCollisionWrapper_GetConvexesUsedInCollideable ::
  "platform \<Rightarrow> PhysicsCollisionWrapper \<Rightarrow> ptr \<Rightarrow> ptr \<Rightarrow>
   int32 \<Rightarrow> event list \<Rightarrow> PhysicsCollisionWrapper result" where
  "PhysicsCollisionWrapper_GetConvexesUsedInCollideable h this pCollideable pOutputArray iOutputArrayLimit tr =
     (let tr = Msg_Debug_Entering h ''PhysicsCollisionWrapper'' ''GetConvexesUsedInCollideable'' tr
      in m_pActualPhysicsCollisionInterface_arrow h this
          (IPhysicsCollision_GetConvexesUsedInCollideable pCollideable pOutputArray iOutputArrayLimit) tr)"

definition PhysicsCollisionWrapper_TraceBox ::
  "platform \<Rightarrow> PhysicsCollisionWrapper \<Rightarrow> ref \<Rightarrow> ref \<Rightarrow>
   ref \<Rightarrow> ref \<Rightarrow> ptr \<Rightarrow> ref \<Rightarrow> ref \<Rightarrow> ptr \<Rightarrow>
   event list \<Rightarrow> PhysicsCollisionWrapper result" where
  "PhysicsCollisionWrapper_TraceBox h this start end' mins maxs pCollide collideOrigin collideAngles ptr tr =
     (let tr = Msg_Debug_Entering h ''PhysicsCollisionWrapper'' ''TraceBox'' tr
      in discard
         (m_pActualPhysicsCollisionInterface_arrow h this
          (IPhysicsCollision_TraceBox start end' mins maxs pCollide collideOrigin collideAngles ptr) tr))"

definition PhysicsCollisionWrapper_TraceBox_ray ::
  "platform \<Rightarrow> PhysicsCollisionWrapper \<Rightarrow> ref \<Rightarrow> ptr \<Rightarrow>
   ref \<Rightarrow> ref \<Rightarrow> ptr \<Rightarrow> event list \<Rightarrow>
   PhysicsCollisionWrapper result" where
  "PhysicsCollisionWrapper_TraceBox_ray h this ray pCollide collideOrigin collideAngles ptr tr =
     (let tr = Msg_Debug_Entering h ''PhysicsCollisionWrapper'' ''TraceBox'' tr
      in discard
         (m_pActualPhysicsCollisionInterface_arrow h this
          (IPhysicsCollision_TraceBox_ray ray pCollide collideOrigin collideAngles ptr) tr))"

definition PhysicsCollisionWrapper_TraceBox_ray_mask ::
  "platform \<Rightarrow> PhysicsCollisionWrapper \<Rightarrow> ref \<Rightarrow> uint32 \<Rightarrow>
   ptr \<Rightarrow> ptr \<Rightarrow> ref \<Rightarrow> ref \<Rightarrow> ptr \<Rightarrow>
   event list \<Rightarrow> PhysicsCollisionWrapper result" where
  "PhysicsCollisionWrapper_TraceBox_ray_mask h this ray contentsMask pConvexInfo pCollide collideOrigin collideAngles ptr tr =
     (let tr = Msg_Debug_Entering h ''PhysicsCollisionWrapper'' ''TraceBox'' tr
      in discard
         (m_pActualPhysicsCollisionInterface_arrow h this
          (IPhysicsCollision_TraceBox_ray_mask ray contentsMask pConvexInfo pCollide collideOrigin collideAngles ptr) tr))"

definition PhysicsCollisionWrapper_TraceCollide ::
  "platform \<Rightarrow> PhysicsCollisionWrapper \<Rightarrow> ref \<Rightarrow> ref \<Rightarrow>
   ptr \<Rightarrow> ref \<Rightarrow> ptr \<Rightarrow> ref \<Rightarrow> ref \<Rightarrow> ptr \<Rightarrow>
   event list \<Rightarrow> PhysicsCollisionWrapper result" where
  "PhysicsCollisionWrapper_TraceCollide h this start end' pSweepCollide sweepAngles pCollide collideOrigin collideAngles ptr tr =
     (let tr = Msg_Debug_Entering h ''PhysicsCollisionWrapper'' ''TraceCollide'' tr
      in discard
         (m_pActualPhysicsCollisionInterface_arrow h this
          (IPhysicsCollision_TraceCollide start end' pSweepCollide sweepAngles pCollide collideOrigin collideAngles ptr) tr))"

definition PhysicsCollisionWrapper_IsBoxIntersectingCone ::
  "platform \<Rightarrow> PhysicsCollisionWrapper \<Rightarrow> ref \<Rightarrow> ref \<Rightarrow>
   ref \<Rightarrow> event list \<Rightarrow> PhysicsCollisionWrapper result" where
  "PhysicsCollisionWrapper_IsBoxIntersectingCone h this boxAbsMins boxAbsMaxs cone tr =
     (let tr = Msg_Debug_Entering h ''PhysicsCollisionWrapper'' ''IsBoxIntersectingCone'' tr
      in m_pActualPhysicsCollisionInterface_arrow h this
          (IPhysicsCollision_IsBoxIntersectingCone boxAbsMins boxAbsMaxs cone) tr)"

definition PhysicsCollisionWrapper_VCollideLoad ::
  "platform \<Rightarrow> PhysicsCollisionWrapper \<Rightarrow> ptr \<Rightarrow> int32 \<Rightarrow>
   ptr \<Rightarrow> int32 \<Rightarrow> bool \<Rightarrow> event list \<Rightarrow>
   PhysicsCollisionWrapper result" where
  "PhysicsCollisionWrapper_VCollideLoad h this pOutput solidCount pBuffer size' swap' tr =
     (let tr = Msg_Debug_Entering h ''PhysicsCollisionWrapper'' ''VCollideLoad'' tr
      in discard
         (m_pActualPhysicsCollisionInterface_arrow h this
          (IPhysicsCollision_VCollideLoad pOutput solidCount pBuffer size' swap') tr))"

definition PhysicsCollisionWrapper_VCollideUnload ::
  "platform \<Rightarrow> PhysicsCollisionWrapper \<Rightarrow> ptr \<Rightarrow> event list \<Rightarrow>
   PhysicsCollisionWrapper result" where
  "PhysicsCollisionWrapper_VCollideUnload h this pVCollide tr =
     (let tr = Msg_Debug_Entering h ''PhysicsCollisionWrapper'' ''VCollideUnload'' tr
      in discard
         (m_pActualPhysicsCollisionInterface_arrow h this
          (IPhysicsCollision_VCollideUnload pVCollide) tr))"

definition PhysicsCollisionWrapper_VPhysicsKeyParserCreate ::
  "platform \<Rightarrow> PhysicsCollisionWrapper \<Rightarrow> ptr \<Rightarrow> event list \<Rightarrow>
   PhysicsCollisionWrapper result" where
  "PhysicsCollisionWrapper_VPhysicsKeyParserCreate h this pKeyData tr =
     (let tr = Msg_Debug_Entering h ''PhysicsCollisionWrapper'' ''VPhysicsKeyParserCreate'' tr
      in m_pActualPhysicsCollisionInterface_arrow h this
          (IPhysicsCollision_VPhysicsKeyParserCreate pKeyData) tr)"

definition PhysicsCollisionWrapper_VPhysicsKeyParserCreate_vcollide ::
  "platform \<Rightarrow> PhysicsCollisionWrapper \<Rightarrow> ptr \<Rightarrow> event list \<Rightarrow>
   PhysicsCollisionWrapper result" where
  "PhysicsCollisionWrapper_VPhysicsKeyParserCreate_vcollide h this pVCollide tr =
     (let tr = Msg_Debug_Entering h ''PhysicsCollisionWrapper'' ''VPhysicsKeyParserCreate'' tr
      in m_pActualPhysicsCollisionInterface_arrow h this
          (IPhysicsCollision_VPhysicsKeyParserCreate_vcollide pVCollide) tr)"

definition PhysicsCollisionWrapper_VPhysicsKeyParserDestroy ::
  "platform \<Rightarrow> PhysicsCollisionWrapper \<Rightarrow> ptr \<Rightarrow> event list \<Rightarrow>
   PhysicsCollisionWrapper result" where
  "PhysicsCollisionWrapper_VPhysicsKeyParserDestroy h this pParser tr =
     (let tr = Msg_Debug_Entering h ''PhysicsCollisionWrapper'' ''VPhysicsKeyParserDestroy'' tr
      in discard
         (m_pActualPhysicsCollisionInterface_arrow h this
          (IPhysicsCollision_VPhysicsKeyParserDestroy pParser) tr))"

definition PhysicsCollisionWrapper_CreateDebugMesh ::
  "platform \<Rightarrow> PhysicsCollisionWrapper \<Rightarrow> ptr \<Rightarrow> ptr \<Rightarrow>
   event list \<Rightarrow> PhysicsCollisionWrapper result" where
  "PhysicsCollisionWrapper_CreateDebugMesh h this pCollisionModel outVerts tr =
     (let tr = Msg_Debug_Entering h ''PhysicsCollisionWrapper'' ''CreateDebugMesh'' tr
      in m_pActualPhysicsCollisionInterface_arrow h this
          (IPhysicsCollision_CreateDebugMesh pCollisionModel outVerts) tr)"

definition PhysicsCollisionWrapper_DestroyDebugMesh ::
  "platform \<Rightarrow> PhysicsCollisionWrapper \<Rightarrow> int32 \<Rightarrow> ptr \<Rightarrow>
   event list \<Rightarrow> PhysicsCollisionWrapper result" where
  "PhysicsCollisionWrapper_DestroyDebugMesh h this vertCount outVerts tr =
     (let tr = Msg_Debug_Entering h ''PhysicsCollisionWrapper'' ''DestroyDebugMesh'' tr
      in discard
         (m_pActualPhysicsCollisionInterface_arrow h this
          (IPhysicsCollision_DestroyDebugMesh vertCount outVerts) tr))"

definition PhysicsCollisionWrapper_CreateQueryModel ::
  "platform \<Rightarrow> PhysicsCollisionWrapper \<Rightarrow> ptr \<Rightarrow> event list \<Rightarrow>
   PhysicsCollisionWrapper result" where
  "PhysicsCollisionWrapper_CreateQueryModel h this pCollide tr =
     (let tr = Msg_Debug_Entering h ''PhysicsCollisionWrapper'' ''CreateQueryModel'' tr
      in m_pActualPhysicsCollisionInterface_arrow h this
          (IPhysicsCollision_CreateQueryModel pCollide) tr)"

definition PhysicsCollisionWrapper_DestroyQueryModel ::
  "platform \<Rightarrow> PhysicsCollisionWrapper \<Rightarrow> ptr \<Rightarrow> event list \<Rightarrow>
   PhysicsCollisionWrapper result" where
  "PhysicsCollisionWrapper_DestroyQueryModel h this pQuery tr =
     (let tr = Msg_Debug_Entering h ''PhysicsCollisionWrapper'' ''DestroyQueryModel'' tr
      in discard
         (m_pActualPhysicsCollisionInterface_arrow h this
          (IPhysicsCollision_DestroyQueryModel pQuery) tr))"

definition PhysicsCollisionWrapper_ThreadContextCreate ::
  "platform \<Rightarrow> PhysicsCollisionWrapper \<Rightarrow> event list \<Rightarrow>
   PhysicsCollisionWrapper result" where
  "PhysicsCollisionWrapper_ThreadContextCreate h this tr =
     (let tr = Msg_Debug_Entering h ''PhysicsCollisionWrapper'' ''ThreadContextCreate'' tr
      in m_pActualPhysicsCollisionInterface_arrow h this
          IPhysicsCollision_ThreadContextCreate tr)"

definition PhysicsCollisionWrapper_ThreadContextDestroy ::
  "platform \<Rightarrow> PhysicsCollisionWrapper \<Rightarrow> ptr \<Rightarrow> event list \<Rightarrow>
   PhysicsCollisionWrapper result" where
  "PhysicsCollisionWrapper_ThreadContextDestroy h this pThreadContex tr =
     (let tr = Msg_Debug_Entering h ''PhysicsCollisionWrapper'' ''ThreadContextDestroy'' tr
      in discard
         (m_pActualPhysicsCollisionInterface_arrow h this
          (IPhysicsCollision_ThreadContextDestroy pThreadContex) tr))"

definition PhysicsCollisionWrapper_CreateVirtualMesh ::
  "platform \<Rightarrow> PhysicsCollisionWrapper \<Rightarrow> ref \<Rightarrow> event list \<Rightarrow>
   PhysicsCollisionWrapper result" where
  "PhysicsCollisionWrapper_CreateVirtualMesh h this params tr =
     (let tr = Msg_Debug_Entering h ''PhysicsCollisionWrapper'' ''CreateVirtualMesh'' tr
      in m_pActualPhysicsCollisionInterface_arrow h this
          (IPhysicsCollision_CreateVirtualMesh params) tr)"

definition PhysicsCollisionWrapper_SupportsVirtualMesh ::
  "platform \<Rightarrow> PhysicsCollisionWrapper \<Rightarrow> event list \<Rightarrow>
   PhysicsCollisionWrapper result" where
  "PhysicsCollisionWrapper_SupportsVirtualMesh h this tr =
     (let tr = Msg_Debug_Entering h ''PhysicsCollisionWrapper'' ''SupportsVirtualMesh'' tr
      in m_pActualPhysicsCollisionInterface_arrow h this
          IPhysicsCollision_SupportsVirtualMesh tr)"

definition PhysicsCollisionWrapper_GetBBoxCacheSize ::
  "platform \<Rightarrow> PhysicsCollisionWrapper \<Rightarrow> ptr \<Rightarrow> ptr \<Rightarrow>
   event list \<Rightarrow> PhysicsCollisionWrapper result" where
  "PhysicsCollisionWrapper_GetBBoxCacheSize h this pCachedSize pCachedCount tr =
     (let tr = Msg_Debug_Entering h ''PhysicsCollisionWrapper'' ''GetBBoxCacheSize'' tr
      in m_pActualPhysicsCollisionInterface_arrow h this
          (IPhysicsCollision_GetBBoxCacheSize pCachedSize pCachedCount) tr)"

definition PhysicsCollisionWrapper_PolyhedronFromConvex ::
  "platform \<Rightarrow> PhysicsCollisionWrapper \<Rightarrow> ptr \<Rightarrow> bool \<Rightarrow>
   event list \<Rightarrow> PhysicsCollisionWrapper result" where
  "PhysicsCollisionWrapper_PolyhedronFromConvex h this pConvex bUseTempPolyhedron tr =
     (let tr = Msg_Debug_Entering h ''PhysicsCollisionWrapper'' ''PolyhedronFromConvex'' tr
      in m_pActualPhysicsCollisionInterface_arrow h this
          (IPhysicsCollision_PolyhedronFromConvex pConvex bUseTempPolyhedron) tr)"

definition PhysicsCollisionWrapper_OutputDebugInfo ::
  "platform \<Rightarrow> PhysicsCollisionWrapper \<Rightarrow> ptr \<Rightarrow> event list \<Rightarrow>
   PhysicsCollisionWrapper result" where
  "PhysicsCollisionWrapper_OutputDebugInfo h this pCollide tr =
     (let tr = Msg_Debug_Entering h ''PhysicsCollisionWrapper'' ''OutputDebugInfo'' tr
      in discard
         (m_pActualPhysicsCollisionInterface_arrow h this
          (IPhysicsCollision_OutputDebugInfo pCollide) tr))"

definition PhysicsCollisionWrapper_ReadStat ::
  "platform \<Rightarrow> PhysicsCollisionWrapper \<Rightarrow> int32 \<Rightarrow> event list \<Rightarrow>
   PhysicsCollisionWrapper result" where
  "PhysicsCollisionWrapper_ReadStat h this statID tr =
     (let tr = Msg_Debug_Entering h ''PhysicsCollisionWrapper'' ''ReadStat'' tr
      in m_pActualPhysicsCollisionInterface_arrow h this
          (IPhysicsCollision_ReadStat statID) tr)"

definition PhysicsCollisionWrapper_CollideGetRadius ::
  "platform \<Rightarrow> PhysicsCollisionWrapper \<Rightarrow> ptr \<Rightarrow> event list \<Rightarrow>
   PhysicsCollisionWrapper result" where
  "PhysicsCollisionWrapper_CollideGetRadius h this pCollide tr =
     (let tr = Msg_Debug_Entering h ''PhysicsCollisionWrapper'' ''CollideGetRadius'' tr
      in m_pActualPhysicsCollisionInterface_arrow h this
          (IPhysicsCollision_CollideGetRadius pCollide) tr)"

definition PhysicsCollisionWrapper_VCollideAllocUserData ::
  "platform \<Rightarrow> PhysicsCollisionWrapper \<Rightarrow> ptr \<Rightarrow> size_t \<Rightarrow>
   event list \<Rightarrow> PhysicsCollisionWrapper result" where
  "PhysicsCollisionWrapper_VCollideAllocUserData h this pVCollide userDataSize tr =
     (let tr = Msg_Debug_Entering h ''PhysicsCollisionWrapper'' ''VCollideAllocUserData'' tr
      in m_pActualPhysicsCollisionInterface_arrow h this
          (IPhysicsCollision_VCollideAllocUserData pVCollide userDataSize) tr)"

definition PhysicsCollisionWrapper_VCollideFreeUserData ::
  "platform \<Rightarrow> PhysicsCollisionWrapper \<Rightarrow> ptr \<Rightarrow> event list \<Rightarrow>
   PhysicsCollisionWrapper result" where
  "PhysicsCollisionWrapper_VCollideFreeUserData h this pVCollide tr =
     (let tr = Msg_Debug_Entering h ''PhysicsCollisionWrapper'' ''VCollideFreeUserData'' tr
      in discard
         (m_pActualPhysicsCollisionInterface_arrow h this
          (IPhysicsCollision_VCollideFreeUserData pVCollide) tr))"

definition PhysicsCollisionWrapper_VCollideCheck ::
  "platform \<Rightarrow> PhysicsCollisionWrapper \<Rightarrow> ptr \<Rightarrow> ptr \<Rightarrow>
   event list \<Rightarrow> PhysicsCollisionWrapper result" where
  "PhysicsCollisionWrapper_VCollideCheck h this pVCollide pName tr =
     (let tr = Msg_Debug_Entering h ''PhysicsCollisionWrapper'' ''VCollideCheck'' tr
      in discard
         (m_pActualPhysicsCollisionInterface_arrow h this
          (IPhysicsCollision_VCollideCheck pVCollide pName) tr))"

definition PhysicsCollisionWrapper_TraceBoxAA ::
  "platform \<Rightarrow> PhysicsCollisionWrapper \<Rightarrow> ref \<Rightarrow> ptr \<Rightarrow>
   ptr \<Rightarrow> event list \<Rightarrow> PhysicsCollisionWrapper result" where
  "PhysicsCollisionWrapper_TraceBoxAA h this ray pCollide ptr tr =
     (let tr = Msg_Debug_Entering h ''PhysicsCollisionWrapper'' ''TraceBoxAA'' tr
      in m_pActualPhysicsCollisionInterface_arrow h this
          (IPhysicsCollision_TraceBoxAA ray pCollide ptr) tr)"

definition PhysicsCollisionWrapper_DuplicateAndScale ::
  "platform \<Rightarrow> PhysicsCollisionWrapper \<Rightarrow> ptr \<Rightarrow> ptr \<Rightarrow>
   float \<Rightarrow> event list \<Rightarrow> PhysicsCollisionWrapper result" where
  "PhysicsCollisionWrapper_DuplicateAndScale h this pOut pIn flScale tr =
     (let tr = Msg_Debug_Entering h ''PhysicsCollisionWrapper'' ''DuplicateAndScale'' tr
      in discard
         (m_pActualPhysicsCollisionInterface_arrow h this
          (IPhysicsCollision_DuplicateAndScale pOut pIn flScale) tr))"

fun PhysicsCollisionWrapper_vtable ::
  "platform \<Rightarrow> PhysicsCollisionWrapper \<Rightarrow> IPhysicsCollision_call \<Rightarrow> event list \<Rightarrow> PhysicsCollisionWrapper result" where
  "PhysicsCollisionWrapper_vtable h this (IPhysicsCollision_ConvexFromVerts pVerts vertCount) tr =
     PhysicsCollisionWrapper_ConvexFromVerts h this pVerts vertCount tr"
| "PhysicsCollisionWrapper_vtable h this (IPhysicsCollision_ConvexFromPlanes pPlanes planeCount mergeDistance) tr =
     PhysicsCollisionWrapper_ConvexFromPlanes h this pPlanes planeCount mergeDistance tr"
| "PhysicsCollisionWrapper_vtable h this (IPhysicsCollision_ConvexVolume pConvex) tr =
     PhysicsCollisionWrapper_ConvexVolume h this pConvex tr"
| "PhysicsCollisionWrapper_vtable h this (IPhysicsCollision_ConvexSurfaceArea pConvex) tr =
     PhysicsCollisionWrapper_ConvexSurfaceArea h this pConvex tr"
| "PhysicsCollisionWrapper_vtable h this (IPhysicsCollision_SetConvexGameData pConvex gameData) tr =
     PhysicsCollisionWrapper_SetConvexGameData h this pConvex gameData tr"
| "PhysicsCollisionWrapper_vtable h this (IPhysicsCollision_ConvexFree pConvex) tr =
     PhysicsCollisionWrapper_ConvexFree h this pConvex tr"
| "PhysicsCollisionWrapper_vtable h this (IPhysicsCollision_BBoxToConvex mins maxs) tr =
     PhysicsCollisionWrapper_BBoxToConvex h this mins maxs tr"
| "PhysicsCollisionWrapper_vtable h this (IPhysicsCollision_ConvexFromConvexPolyhedron ConvexPolyhedron) tr =
     PhysicsCollisionWrapper_ConvexFromConvexPolyhedron h this ConvexPolyhedron tr"
| "PhysicsCollisionWrapper_vtable h this (IPhysicsCollision_ConvexesFromConvexPolygon vPolyNormal pPoints iPointCount pOutput) tr =
     PhysicsCollisionWrapper_ConvexesFromConvexPolygon h this vPolyNormal pPoints iPointCount pOutput tr"
| "PhysicsCollisionWrapper_vtable h this (IPhysicsCollision_PolysoupCreate) tr =
     PhysicsCollisionWrapper_PolysoupCreate h this tr"
| "PhysicsCollisionWrapper_vtable h this (IPhysicsCollision_PolysoupDestroy pSoup) tr =
     PhysicsCollisionWrapper_PolysoupDestroy h this pSoup tr"
| "PhysicsCollisionWrapper_vtable h this (IPhysicsCollision_PolysoupAddTriangle pSoup a b c materialIndex7bits) tr =
     PhysicsCollisionWrapper_PolysoupAddTriangle h this pSoup a b c materialIndex7bits tr"
| "PhysicsCollisionWrapper_vtable h this (IPhysicsCollision_ConvertPolysoupToCollide pSoup useMOPP) tr =
     PhysicsCollisionWrapper_ConvertPolysoupToCollide h this pSoup useMOPP tr"
| "PhysicsCollisionWrapper_vtable h this (IPhysicsCollision_ConvertConvexToCollide pConvex convexCount) tr =
     PhysicsCollisionWrapper_ConvertConvexToCollide h this pConvex convexCount tr"
| "PhysicsCollisionWrapper_vtable h this (IPhysicsCollision_ConvertConvexToCollideParams pConvex convexCount convertParams) tr =
     PhysicsCollisionWrapper_ConvertConvexToCollideParams h this pConvex convexCount convertParams tr"
| "PhysicsCollisionWrapper_vtable h this (IPhysicsCollision_DestroyCollide pCollide) tr =
     PhysicsCollisionWrapper_DestroyCollide h this pCollide tr"
| "PhysicsCollisionWrapper_vtable h this (IPhysicsCollision_CollideSize pCollide) tr =
     PhysicsCollisionWrapper_CollideSize h this pCollide tr"
| "PhysicsCollisionWrapper_vtable h this (IPhysicsCollision_CollideWrite pDest pCollide bSwap) tr =
     PhysicsCollisionWrapper_CollideWrite h this pDest pCollide bSwap tr"
| "PhysicsCollisionWrapper_vtable h this (IPhysicsCollision_UnserializeCollide pBuffer size' index') tr =
     PhysicsCollisionWrapper_UnserializeCollide h this pBuffer size' index' tr"
| "PhysicsCollisionWrapper_vtable h this (IPhysicsCollision_CollideVolume pCollide) tr =
     PhysicsCollisionWrapper_CollideVolume h this pCollide tr"
| "PhysicsCollisionWrapper_vtable h this (IPhysicsCollision_CollideSurfaceArea pCollide) tr =
     PhysicsCollisionWrapper_CollideSurfaceArea h this pCollide tr"
| "PhysicsCollisionWrapper_vtable h this (IPhysicsCollision_CollideGetExtent pCollide collideOrigin collideAngles direction) tr =
     PhysicsCollisionWrapper_CollideGetExtent h this pCollide collideOrigin collideAngles direction tr"
| "PhysicsCollisionWrapper_vtable h this (IPhysicsCollision_CollideGetAABB pMins pMaxs pCollide collideOrigin collideAngles) tr =
     PhysicsCollisionWrapper_CollideGetAABB h this pMins pMaxs pCollide collideOrigin collideAngles tr"
| "PhysicsCollisionWrapper_vtable h this (IPhysicsCollision_CollideGetMassCenter pCollide pOutMassCenter) tr =
     PhysicsCollisionWrapper_CollideGetMassCenter h this pCollide pOutMassCenter tr"
| "PhysicsCollisionWrapper_vtable h this (IPhysicsCollision_CollideSetMassCenter pCollide massCenter) tr =
     PhysicsCollisionWrapper_CollideSetMassCenter h this pCollide massCenter tr"
| "PhysicsCollisionWrapper_vtable h this (IPhysicsCollision_CollideGetOrthographicAreas pCollide) tr =
     PhysicsCollisionWrapper_CollideGetOrthographicAreas h this pCollide tr"
| "PhysicsCollisionWrapper_vtable h this (IPhysicsCollision_CollideSetOrthographicAreas pCollide areas) tr =
     PhysicsCollisionWrapper_CollideSetOrthographicAreas h this pCollide areas tr"
| "PhysicsCollisionWrapper_vtable h this (IPhysicsCollision_CollideIndex pCollide) tr =
     PhysicsCollisionWrapper_CollideIndex h this pCollide tr"
| "PhysicsCollisionWrapper_vtable h this (IPhysicsCollision_BBoxToCollide mins maxs) tr =
     PhysicsCollisionWrapper_BBoxToCollide h this mins maxs tr"
| "PhysicsCollisionWrapper_vtable h this (IPhysicsCollision_GetConvexesUsedInCollideable pCollideable pOutputArray iOutputArrayLimit) tr =
     PhysicsCollisionWrapper_GetConvexesUsedInCollideable h this pCollideable pOutputArray iOutputArrayLimit tr"
| "PhysicsCollisionWrapper_vtable h this (IPhysicsCollision_TraceBox start end' mins maxs pCollide collideOrigin collideAngles ptr) tr =
     PhysicsCollisionWrapper_TraceBox h this start end' mins maxs pCollide collideOrigin collideAngles ptr tr"
| "PhysicsCollisionWrapper_vtable h this (IPhysicsCollision_TraceBox_ray ray pCollide collideOrigin collideAngles ptr) tr =
     PhysicsCollisionWrapper_TraceBox_ray h this ray pCollide collideOrigin collideAngles ptr tr"
| "PhysicsCollisionWrapper_vtable h this (IPhysicsCollision_TraceBox_ray_mask ray contentsMask pConvexInfo pCollide collideOrigin collideAngles ptr) tr =
     PhysicsCollisionWrapper_TraceBox_ray_mask h this ray contentsMask pConvexInfo pCollide collideOrigin collideAngles ptr tr"
| "PhysicsCollisionWrapper_vtable h this (IPhysicsCollision_TraceCollide start end' pSweepCollide sweepAngles pCollide collideOrigin collideAngles ptr) tr =
     PhysicsCollisionWrapper_TraceCollide h this start end' pSweepCollide sweepAngles pCollide collideOrigin collideAngles ptr tr"
| "PhysicsCollisionWrapper_vtable h this (IPhysicsCollision_IsBoxIntersectingCone boxAbsMins boxAbsMaxs cone) tr =
     PhysicsCollisionWrapper_IsBoxIntersectingCone h this boxAbsMins boxAbsMaxs cone tr"
| "PhysicsCollisionWrapper_vtable h this (IPhysicsCollision_VCollideLoad pOutput solidCount pBuffer size' swap') tr =
     PhysicsCollisionWrapper_VCollideLoad h this pOutput solidCount pBuffer size' swap' tr"
| "PhysicsCollisionWrapper_vtable h this (IPhysicsCollision_VCollideUnload pVCollide) tr =
     PhysicsCollisionWrapper_VCollideUnload h this pVCollide tr"
| "PhysicsCollisionWrapper_vtable h this (IPhysicsCollision_VPhysicsKeyParserCreate pKeyData) tr =
     PhysicsCollisionWrapper_VPhysicsKeyParserCreate h this pKeyData tr"
| "PhysicsCollisionWrapper_vtable h this (IPhysicsCollision_VPhysicsKeyParserCreate_vcollide pVCollide) tr =
     PhysicsCollisionWrapper_VPhysicsKeyParserCreate_vcollide h this pVCollide tr"
| "PhysicsCollisionWrapper_vtable h this (IPhysicsCollision_VPhysicsKeyParserDestroy pParser) tr =
     PhysicsCollisionWrapper_VPhysicsKeyParserDestroy h this pParser tr"
| "PhysicsCollisionWrapper_vtable h this (IPhysicsCollision_CreateDebugMesh pCollisionModel outVerts) tr =
     PhysicsCollisionWrapper_CreateDebugMesh h this pCollisionModel outVerts tr"
| "PhysicsCollisionWrapper_vtable h this (IPhysicsCollision_DestroyDebugMesh vertCount outVerts) tr =
     PhysicsCollisionWrapper_DestroyDebugMesh h this vertCount outVerts tr"
| "PhysicsCollisionWrapper_vtable h this (IPhysicsCollision_CreateQueryModel pCollide) tr =
     PhysicsCollisionWrapper_CreateQueryModel h this pCollide tr"
| "PhysicsCollisionWrapper_vtable h this (IPhysicsCollision_DestroyQueryModel pQuery) tr =
     PhysicsCollisionWrapper_DestroyQueryModel h this pQuery tr"
| "PhysicsCollisionWrapper_vtable h this (IPhysicsCollision_ThreadContextCreate) tr =
     PhysicsCollisionWrapper_ThreadContextCreate h this tr"
| "PhysicsCollisionWrapper_vtable h this (IPhysicsCollision_ThreadContextDestroy pThreadContex) tr =
     PhysicsCollisionWrapper_ThreadContextDestroy h this pThreadContex tr"
| "PhysicsCollisionWrapper_vtable h this (IPhysicsCollision_CreateVirtualMesh params) tr =
     PhysicsCollisionWrapper_CreateVirtualMesh h this params tr"
| "PhysicsCollisionWrapper_vtable h this (IPhysicsCollision_SupportsVirtualMesh) tr =
     PhysicsCollisionWrapper_SupportsVirtualMesh h this tr"
| "PhysicsCollisionWrapper_vtable h this (IPhysicsCollision_GetBBoxCacheSize pCachedSize pCachedCount) tr =
     PhysicsCollisionWrapper_GetBBoxCacheSize h this pCachedSize pCachedCount tr"
| "PhysicsCollisionWrapper_vtable h this (IPhysicsCollision_PolyhedronFromConvex pConvex bUseTempPolyhedron) tr =
     PhysicsCollisionWrapper_PolyhedronFromConvex h this pConvex bUseTempPolyhedron tr"
| "PhysicsCollisionWrapper_vtable h this (IPhysicsCollision_OutputDebugInfo pCollide) tr =
     PhysicsCollisionWrapper_OutputDebugInfo h this pCollide tr"
| "PhysicsCollisionWrapper_vtable h this (IPhysicsCollision_ReadStat statID) tr =
     PhysicsCollisionWrapper_ReadStat h this statID tr"
| "PhysicsCollisionWrapper_vtable h this (IPhysicsCollision_CollideGetRadius pCollide) tr =
     PhysicsCollisionWrapper_CollideGetRadius h this pCollide tr"
| "PhysicsCollisionWrapper_vtable h this (IPhysicsCollision_VCollideAllocUserData pVCollide userDataSize) tr =
     PhysicsCollisionWrapper_VCollideAllocUserData h this pVCollide userDataSize tr"
| "PhysicsCollisionWrapper_vtable h this (IPhysicsCollision_VCollideFreeUserData pVCollide) tr =
     PhysicsCollisionWrapper_VCollideFreeUserData h this pVCollide tr"
| "PhysicsCollisionWrapper_vtable h this (IPhysicsCollision_VCollideCheck pVCollide pName) tr =
     PhysicsCollisionWrapper_VCollideCheck h this pVCollide pName tr"
| "PhysicsCollisionWrapper_vtable h this (IPhysicsCollision_TraceBoxAA ray pCollide ptr) tr =
     PhysicsCollisionWrapper_TraceBoxAA h this ray pCollide ptr tr"
| "PhysicsCollisionWrapper_vtable h this (IPhysicsCollision_DuplicateAndScale pOut pIn flScale) tr =
     PhysicsCollisionWrapper_DuplicateAndScale h this pOut pIn flScale tr"

section \<open>Notions used to state the properties\<close>

text \<open>The module file the wrapper asks for on this platform.\<close>

definition selected_module :: "platform \<Rightarrow> string" where
  "selected_module h = GetModuleFromCPULevel (DLL_EXT_STRING h) (GetCPULevel (GetCPUID h))"

text \<open>The module loads among the events, and the calls dispatched to a delegate.\<close>

fun is_load :: "event \<Rightarrow> bool" where
  "is_load (Sys_LoadInterface_call pModuleName pInterfaceVersionName r) = True"
| "is_load _ = False"

definition loads :: "event list \<Rightarrow> event list" where
  "loads tr = filter is_load tr"

fun is_vcall :: "event \<Rightarrow> bool" where
  "is_vcall (IPhysics_vcall p c) = True"
| "is_vcall (IPhysicsSurfaceProps_vcall p c) = True"
| "is_vcall (IPhysicsCollision_vcall p c) = True"
| "is_vcall _ = False"

definition vcalls :: "event list \<Rightarrow> event list" where
  "vcalls tr = filter is_vcall tr"

text \<open>The two methods of \<^verbatim>\<open>PhysicsWrapper\<close> that call \<^verbatim>\<open>InitWrapper\<close>.\<close>

fun calls_InitWrapper :: "IPhysics_call \<Rightarrow> bool" where
  "calls_InitWrapper (IPhysics_Connect factory) = True"
| "calls_InitWrapper (IPhysics_QueryInterface pInterfaceName) = True"
| "calls_InitWrapper _ = False"

text \<open>
  The methods declared \<^verbatim>\<open>void\<close>, and what the caller of a method gets when its delegate
  returned \<open>v\<close>.
\<close>

fun IPhysics_returns_void :: "IPhysics_call \<Rightarrow> bool" where
  "IPhysics_returns_void IPhysics_Disconnect = True"
| "IPhysics_returns_void IPhysics_Shutdown = True"
| "IPhysics_returns_void (IPhysics_DestroyEnvironment _) = True"
| "IPhysics_returns_void (IPhysics_DestroyObjectPairHash _) = True"
| "IPhysics_returns_void IPhysics_DestroyAllCollisionSets = True"
| "IPhysics_returns_void _ = False"

fun IPhysicsSurfaceProps_returns_void :: "IPhysicsSurfaceProps_call \<Rightarrow> bool" where
  "IPhysicsSurfaceProps_returns_void (IPhysicsSurfaceProps_GetPhysicsProperties _ _ _ _ _) = True"
| "IPhysicsSurfaceProps_returns_void (IPhysicsSurfaceProps_SetWorldMaterialIndexTable _ _) = True"
| "IPhysicsSurfaceProps_returns_void (IPhysicsSurfaceProps_GetPhysicsParameters _ _) = True"
| "IPhysicsSurfaceProps_returns_void _ = False"

fun IPhysicsCollision_returns_void :: "IPhysicsCollision_call \<Rightarrow> bool" where
  "IPhysicsCollision_returns_void (IPhysicsCollision_SetConvexGameData _ _) = True"
| "IPhysicsCollision_returns_void (IPhysicsCollision_ConvexFree _) = True"
| "IPhysicsCollision_returns_void (IPhysicsCollision_ConvexesFromConvexPolygon _ _ _ _) = True"
| "IPhysicsCollision_returns_void (IPhysicsCollision_PolysoupDestroy _) = True"
| "IPhysicsCollision_returns_void (IPhysicsCollision_PolysoupAddTriangle _ _ _ _ _) = True"
| "IPhysicsCollision_returns_void (IPhysicsCollision_DestroyCollide _) = True"
| "IPhysicsCollision_returns_void (IPhysicsCollision_CollideGetAABB _ _ _ _ _) = True"
| "IPhysicsCollision_returns_void (IPhysicsCollision_CollideGetMassCenter _ _) = True"
| "IPhysicsCollision_returns_void (IPhysicsCollision_CollideSetMassCenter _ _) = True"
| "IPhysicsCollision_returns_void (IPhysicsCollision_CollideSetOrthographicAreas _ _) = True"
| "IPhysicsCollision_returns_void (IPhysicsCollision_TraceBox _ _ _ _ _ _ _ _) = True"
| "IPhysicsCollision_returns_void (IPhysicsCollision_TraceBox_ray _ _ _ _ _) = True"
| "IPhysicsCollision_returns_void (IPhysicsCollision_TraceBox_ray_mask _ _ _ _ _ _ _) = True"
| "IPhysicsCollision_returns_void (IPhysicsCollision_TraceCollide _ _ _ _ _ _ _ _) = True"
| "IPhysicsCollision_returns_void (IPhysicsCollision_VCollideLoad _ _ _ _ _) = True"
| "IPhysicsCollision_returns_void (IPhysicsCollision_VCollideUnload _) = True"
| "IPhysicsCollision_returns_void (IPhysicsCollision_VPhysicsKeyParserDestroy _) = True"
| "IPhysicsCollision_returns_void (IPhysicsCollision_DestroyDebugMesh _ _) = True"
| "IPhysicsCollision_returns_void (IPhysicsCollision_DestroyQueryModel _) = True"
| "IPhysicsCollision_returns_void (IPhysicsCollision_ThreadContextDestroy _) = True"
| "IPhysicsCollision_returns_void (IPhysicsCollision_OutputDebugInfo _) = True"
| "IPhysicsCollision_returns_void (IPhysicsCollision_VCollideFreeUserData _) = True"
| "IPhysicsCollision_returns_void (IPhysicsCollision_VCollideCheck _ _) = True"
| "IPhysicsCollision_returns_void (IPhysicsCollision_DuplicateAndScale _ _ _) = True"
| "IPhysicsCollision_returns_void _ = False"

definition returned :: "bool \<Rightarrow> ret \<Rightarrow> fault + ret" where
  "returned is_void v = (if is_void then Inr RetVoid else Inr v)"

section \<open>Stub platforms\<close>

text \<open>
  A processor with AVX2 (the register values of an Intel Core i7-6700): the highest basic
  leaf is 22, leaf 7 reports EBX = 0x029C6FBF (bit 5 set).
\<close>

definition cpuid_avx2 :: cpuid where
  "cpuid_avx2 func subfunc =
     (if func = 0 then \<lparr>cpuInfo_0 = 22, cpuInfo_1 = 0x756E6547, cpuInfo_2 = 0x6C65746E, cpuInfo_3 = 0x49656E69\<rparr>
      else if func = 1 then \<lparr>cpuInfo_0 = 0x506E3, cpuInfo_1 = 0x100800, cpuInfo_2 = 0x7FFAFBBF, cpuInfo_3 = 0xBFEBFBFF\<rparr>
      else if func = 7 then \<lparr>cpuInfo_0 = 0, cpuInfo_1 = 0x029C6FBF, cpuInfo_2 = 0, cpuInfo_3 = 0\<rparr>
      else \<lparr>cpuInfo_0 = 0, cpuInfo_1 = 0, cpuInfo_2 = 0, cpuInfo_3 = 0\<rparr>)"

text \<open>
  A stub loader and stub delegates, as a test would set them up. \<open>files\<close> are the module
  files that can be loaded; a load that succeeds gives the module handle 4096 and a
  delegate at address 8192. The delegates answer with values that depend on the arguments
  (and, for the surface properties, on the number of events so far).
\<close>

definition stub_IPhysics :: "event list \<Rightarrow> nat \<Rightarrow> IPhysics_call \<Rightarrow> ret" where
  "stub_IPhysics tr p c =
     (case c of
        IPhysics_Connect factory \<Rightarrow> RetBool True
      | IPhysics_QueryInterface pInterfaceName \<Rightarrow> RetPtr (Some (p + 8))
      | IPhysics_FindCollisionSet id' \<Rightarrow> RetPtr (Some (unat id' + 100))
      | _ \<Rightarrow> RetInt 1)"

definition stub_IPhysicsSurfaceProps :: "event list \<Rightarrow> nat \<Rightarrow> IPhysicsSurfaceProps_call \<Rightarrow> ret" where
  "stub_IPhysicsSurfaceProps tr p c = RetInt (of_nat (length tr))"

definition stub_IPhysicsCollision :: "event list \<Rightarrow> nat \<Rightarrow> IPhysicsCollision_call \<Rightarrow> ret" where
  "stub_IPhysicsCollision tr p c =
     (case c of
        IPhysicsCollision_CollideVolume pCollide \<Rightarrow>
          (case pCollide of None \<Rightarrow> RetFloat 0 | Some a \<Rightarrow> RetFloat (of_nat a))
      | _ \<Rightarrow> RetFloat 0x3F800000)"

definition stub_platform :: "string list \<Rightarrow> platform" where
  "stub_platform files =
     \<lparr>GetCPUID = cpuid_avx2,
      DLL_EXT_STRING = ''.dll'',
      VPHYSICS_INTERFACE_VERSION = ''VPhysics031'',
      VPHYSICS_SURFACEPROPS_INTERFACE_VERSION = ''VPhysicsSurfaceProps001'',
      VPHYSICS_COLLISION_INTERFACE_VERSION = ''VPhysicsCollision007'',
      FUNCTION = (\<lambda>cls fn. cls @ ''::'' @ fn),
      Sys_LoadInterface =
        (\<lambda>tr pModuleName pInterfaceVersionName.
           if pModuleName \<in> set files then Some (4096, 8192) else None),
      IPhysics_impl = stub_IPhysics,
      IPhysicsSurfaceProps_impl = stub_IPhysicsSurfaceProps,
      IPhysicsCollision_impl = stub_IPhysicsCollision\<rparr>"

section \<open>Detection and module selection\<close>

lemma GetCPULevel_leaf7:
  "7 \<le>s cpuInfo_0 (c 0 0) \<Longrightarrow>
   GetCPULevel c = (if cpuInfo_1 (c 7 0) AND push_bit 5 1 \<noteq> 0 then CPU_HAS_AVX2 else CPU_HAS_SSE2)"
  by (simp add: GetCPULevel_def Let_def)

lemma GetCPULevel_no_leaf7:
  "\<not> 7 \<le>s cpuInfo_0 (c 0 0) \<Longrightarrow>
   GetCPULevel c = (if cpuInfo_2 (c 1 0) AND push_bit 20 1 \<noteq> 0 then CPU_HAS_SSE42 else CPU_HAS_SSE2)"
  by (simp add: GetCPULevel_def Let_def)

text \<open>
  The source and the ladder differ exactly on processors that have leaf 7, lack AVX2 and
  have SSE4.2.
\<close>

lemma GetCPULevel_ladder_iff:
  "GetCPULevel c = DetectTier_ladder c \<longleftrightarrow>
   \<not> (7 \<le>s cpuInfo_0 (c 0 0) \<and> cpuInfo_1 (c 7 0) AND push_bit 5 1 = 0
      \<and> cpuInfo_2 (c 1 0) AND push_bit 20 1 \<noteq> 0)"
  by (cases "7 \<le>s cpuInfo_0 (c 0 0)")
     (auto simp: GetCPULevel_leaf7 GetCPULevel_no_leaf7 DetectTier_ladder_def)

text \<open>
  C1. The claim: leaf 7 present and AVX2 set gives \<open>CPU_HAS_AVX2\<close>; otherwise SSE4.2 set
  gives \<open>CPU_HAS_SSE42\<close>; otherwise \<open>CPU_HAS_SSE2\<close>; in particular leaf 7 present, AVX2
  clear and SSE4.2 set is the mid tier. On such a processor the source never reads leaf 1
  and returns \<open>CPU_HAS_SSE2\<close>, where the ladder gives \<open>CPU_HAS_SSE42\<close>.
\<close>

theorem C1_GetCPULevel_skips_sse42:
  "GetCPULevel cpuid_sse42_no_avx2 = CPU_HAS_SSE2
   \<and> DetectTier_ladder cpuid_sse42_no_avx2 = CPU_HAS_SSE42"
  by (simp add: GetCPULevel_def DetectTier_ladder_def cpuid_sse42_no_avx2_def Let_def word_sle_eq)

text \<open>
  C7. The module name is a total function of the tier: each of the three tiers has its own
  fixed file name (avx2, sse42, sse2, followed by the platform's extension), the three
  names are different, and no tier is given the name of another one.
\<close>

theorem C7_GetModuleFromCPULevel_total:
  "GetModuleFromCPULevel ext CPU_HAS_AVX2 = ''vphysics_jolt_avx2'' @ ext
   \<and> GetModuleFromCPULevel ext CPU_HAS_SSE42 = ''vphysics_jolt_sse42'' @ ext
   \<and> GetModuleFromCPULevel ext CPU_HAS_SSE2 = ''vphysics_jolt_sse2'' @ ext
   \<and> GetModuleFromCPULevel ext CPU_HAS_AVX2 \<noteq> GetModuleFromCPULevel ext CPU_HAS_SSE42
   \<and> GetModuleFromCPULevel ext CPU_HAS_AVX2 \<noteq> GetModuleFromCPULevel ext CPU_HAS_SSE2
   \<and> GetModuleFromCPULevel ext CPU_HAS_SSE42 \<noteq> GetModuleFromCPULevel ext CPU_HAS_SSE2"
  by (simp add: GetModuleFromCPULevel_def)

section \<open>The constructors of the two eager facades\<close>

lemma loads_append: "loads (xs @ ys) = loads xs @ loads ys"
  by (simp add: loads_def)

lemma loads_Msg: "loads (map Msg_call msgs) = []"
  by (induction msgs) (simp_all add: loads_def)

lemma loads_Msg_Debug_Entering: "loads (Msg_Debug_Entering h cls fn tr) = loads tr"
  by (simp add: Msg_Debug_Entering_def loads_def)

lemma loads_Msg_Failed_to_load: "loads (Msg_Failed_to_load n tr) = loads tr"
  by (simp add: Msg_Failed_to_load_def loads_def)

lemma loads_snoc_load: "loads (tr @ [Sys_LoadInterface_call n v r]) = loads tr @ [Sys_LoadInterface_call n v r]"
  by (simp add: loads_def)

lemma s_PhysicsSurfaceProps_eq:
  "s_PhysicsSurfaceProps h tr =
     (let tr0 = Msg_Debug_Entering h ''PhysicsSurfacePropsWrapper'' ''PhysicsSurfacePropsWrapper'' tr;
          r = Sys_LoadInterface h tr0 (selected_module h) (VPHYSICS_SURFACEPROPS_INTERFACE_VERSION h);
          tr1 = tr0 @ [Sys_LoadInterface_call (selected_module h) (VPHYSICS_SURFACEPROPS_INTERFACE_VERSION h) r]
      in case r of
           None \<Rightarrow>
             (\<lparr>m_pActualPhysicsSurfacePropsModule = None, m_pActualPhysicsSurfacePropsInterface = None\<rparr>,
              Msg_Failed_to_load (selected_module h) tr1)
         | Some (m, i) \<Rightarrow>
             (\<lparr>m_pActualPhysicsSurfacePropsModule = Some m, m_pActualPhysicsSurfacePropsInterface = Some i\<rparr>,
              tr1))"
  by (simp add: s_PhysicsSurfaceProps_def PhysicsSurfacePropsWrapper_ctor_def Let_def
      call_Sys_LoadInterface_def selected_module_def split: option.split)

lemma s_PhysicsCollision_eq:
  "s_PhysicsCollision h tr =
     (let tr0 = Msg_Debug_Entering h ''PhysicsCollisionWrapper'' ''PhysicsCollisionWrapper'' tr;
          r = Sys_LoadInterface h tr0 (selected_module h) (VPHYSICS_COLLISION_INTERFACE_VERSION h);
          tr1 = tr0 @ [Sys_LoadInterface_call (selected_module h) (VPHYSICS_COLLISION_INTERFACE_VERSION h) r]
      in case r of
           None \<Rightarrow>
             (\<lparr>m_pActualPhysicsCollisionModule = None, m_pActualPhysicsCollisionInterface = None\<rparr>,
              Msg_Failed_to_load (selected_module h) tr1)
         | Some (m, i) \<Rightarrow>
             (\<lparr>m_pActualPhysicsCollisionModule = Some m, m_pActualPhysicsCollisionInterface = Some i\<rparr>,
              tr1))"
  by (simp add: s_PhysicsCollision_def PhysicsCollisionWrapper_ctor_def Let_def
      call_Sys_LoadInterface_def selected_module_def split: option.split)

lemma s_PhysicsSurfaceProps_loads:
  "loads (snd (s_PhysicsSurfaceProps h tr)) =
     loads tr @
     [Sys_LoadInterface_call (selected_module h) (VPHYSICS_SURFACEPROPS_INTERFACE_VERSION h)
        (Sys_LoadInterface h
           (Msg_Debug_Entering h ''PhysicsSurfacePropsWrapper'' ''PhysicsSurfacePropsWrapper'' tr)
           (selected_module h) (VPHYSICS_SURFACEPROPS_INTERFACE_VERSION h))]"
  by (simp add: s_PhysicsSurfaceProps_eq Let_def loads_Msg_Failed_to_load loads_snoc_load
      loads_Msg_Debug_Entering split: option.split)

lemma s_PhysicsCollision_loads:
  "loads (snd (s_PhysicsCollision h tr)) =
     loads tr @
     [Sys_LoadInterface_call (selected_module h) (VPHYSICS_COLLISION_INTERFACE_VERSION h)
        (Sys_LoadInterface h
           (Msg_Debug_Entering h ''PhysicsCollisionWrapper'' ''PhysicsCollisionWrapper'' tr)
           (selected_module h) (VPHYSICS_COLLISION_INTERFACE_VERSION h))]"
  by (simp add: s_PhysicsCollision_eq Let_def loads_Msg_Failed_to_load loads_snoc_load
      loads_Msg_Debug_Entering split: option.split)

lemma s_PhysicsSurfaceProps_delegate:
  "m_pActualPhysicsSurfacePropsInterface (fst (s_PhysicsSurfaceProps h tr)) =
     map_option snd
       (Sys_LoadInterface h
          (Msg_Debug_Entering h ''PhysicsSurfacePropsWrapper'' ''PhysicsSurfacePropsWrapper'' tr)
          (selected_module h) (VPHYSICS_SURFACEPROPS_INTERFACE_VERSION h))"
  by (simp add: s_PhysicsSurfaceProps_eq Let_def split: option.split)

lemma s_PhysicsCollision_delegate:
  "m_pActualPhysicsCollisionInterface (fst (s_PhysicsCollision h tr)) =
     map_option snd
       (Sys_LoadInterface h
          (Msg_Debug_Entering h ''PhysicsCollisionWrapper'' ''PhysicsCollisionWrapper'' tr)
          (selected_module h) (VPHYSICS_COLLISION_INTERFACE_VERSION h))"
  by (simp add: s_PhysicsCollision_eq Let_def split: option.split)

section \<open>The stub platform\<close>

lemma stub_selected_module: "selected_module (stub_platform files) = ''vphysics_jolt_avx2.dll''"
  by (simp add: selected_module_def stub_platform_def GetCPULevel_def cpuid_avx2_def
      GetModuleFromCPULevel_def Let_def word_sle_eq)

lemma stub_fields:
  "VPHYSICS_INTERFACE_VERSION (stub_platform files) = ''VPhysics031''"
  "VPHYSICS_SURFACEPROPS_INTERFACE_VERSION (stub_platform files) = ''VPhysicsSurfaceProps001''"
  "VPHYSICS_COLLISION_INTERFACE_VERSION (stub_platform files) = ''VPhysicsCollision007''"
  "FUNCTION (stub_platform files) cls fn = cls @ ''::'' @ fn"
  "Sys_LoadInterface (stub_platform files) tr n v = (if n \<in> set files then Some (4096, 8192) else None)"
  "IPhysics_impl (stub_platform files) = stub_IPhysics"
  "IPhysicsSurfaceProps_impl (stub_platform files) = stub_IPhysicsSurfaceProps"
  "IPhysicsCollision_impl (stub_platform files) = stub_IPhysicsCollision"
  by (simp_all add: stub_platform_def)

lemma stub_failed_ctor:
  "s_PhysicsSurfaceProps (stub_platform []) [] =
     (\<lparr>m_pActualPhysicsSurfacePropsModule = None, m_pActualPhysicsSurfacePropsInterface = None\<rparr>,
      [Msg_call (''Debug: Entering PhysicsSurfacePropsWrapper::PhysicsSurfacePropsWrapper'' @ [CHR 0x0A]),
       Sys_LoadInterface_call ''vphysics_jolt_avx2.dll'' ''VPhysicsSurfaceProps001'' None,
       Msg_call (''Failed to load vphysics_jolt_avx2.dll'' @ [CHR 0x0A])])"
  by (simp add: s_PhysicsSurfaceProps_eq Let_def stub_fields stub_selected_module
      Msg_Debug_Entering_def Msg_Failed_to_load_def)

section \<open>Resolution on the environment facade\<close>

lemma InitWrapper_cached:
  "m_pActualPhysicsInterface this = Some p \<Longrightarrow>
   PhysicsWrapper_InitWrapper h this tr = (True, this, tr)"
  by (simp add: PhysicsWrapper_InitWrapper_def)

lemma InitWrapper_loaded:
  assumes "m_pActualPhysicsInterface this = None"
      and "Sys_LoadInterface h tr (selected_module h) (VPHYSICS_INTERFACE_VERSION h) = Some (m, i)"
  shows "PhysicsWrapper_InitWrapper h this tr =
         (True, this\<lparr>m_pActualPhysicsModule := Some m, m_pActualPhysicsInterface := Some i\<rparr>,
          tr @ [Sys_LoadInterface_call (selected_module h) (VPHYSICS_INTERFACE_VERSION h) (Some (m, i))])"
  using assms
  by (simp add: PhysicsWrapper_InitWrapper_def call_Sys_LoadInterface_def selected_module_def Let_def)

lemma InitWrapper_failed:
  assumes "m_pActualPhysicsInterface this = None"
      and "Sys_LoadInterface h tr (selected_module h) (VPHYSICS_INTERFACE_VERSION h) = None"
  shows "PhysicsWrapper_InitWrapper h this tr =
         (False, this,
          tr @ [Sys_LoadInterface_call (selected_module h) (VPHYSICS_INTERFACE_VERSION h) None])"
  using assms
  by (simp add: PhysicsWrapper_InitWrapper_def call_Sys_LoadInterface_def selected_module_def Let_def)

lemma InitWrapper_repeat_cached:
  "m_pActualPhysicsInterface this = Some p \<Longrightarrow>
   PhysicsWrapper_InitWrapper_repeat h n this tr = (replicate n True, this, tr)"
  by (induction n) (simp_all add: InitWrapper_cached)

lemma arrow_IPhysics_Some:
  "m_pActualPhysicsInterface this = Some p \<Longrightarrow>
   m_pActualPhysicsInterface_arrow h this c tr =
     (Inr (IPhysics_impl h tr p c), this, tr @ [IPhysics_vcall p c])"
  by (simp add: m_pActualPhysicsInterface_arrow_def)

lemma arrow_IPhysics_None:
  "m_pActualPhysicsInterface this = None \<Longrightarrow>
   m_pActualPhysicsInterface_arrow h this c tr = (Inl NullDereference, this, tr)"
  by (simp add: m_pActualPhysicsInterface_arrow_def)

text \<open>
  C4. Resolution is memoized per object: when the first of a row of resolve attempts on an
  unresolved facade succeeds, every attempt returns true, the object holds the handle and
  the delegate of that one load, and the whole row performs exactly one
  \<open>Sys_LoadInterface\<close> call.
\<close>

theorem C4_resolution_memoized:
  assumes "m_pActualPhysicsInterface this = None"
      and "Sys_LoadInterface h tr (selected_module h) (VPHYSICS_INTERFACE_VERSION h) = Some (m, i)"
  shows "PhysicsWrapper_InitWrapper_repeat h (Suc n) this tr =
         (replicate (Suc n) True,
          this\<lparr>m_pActualPhysicsModule := Some m, m_pActualPhysicsInterface := Some i\<rparr>,
          tr @ [Sys_LoadInterface_call (selected_module h) (VPHYSICS_INTERFACE_VERSION h) (Some (m, i))])"
proof -
  let ?this = "this\<lparr>m_pActualPhysicsModule := Some m, m_pActualPhysicsInterface := Some i\<rparr>"
  have "m_pActualPhysicsInterface ?this = Some i" by simp
  then show ?thesis
    by (simp add: InitWrapper_loaded [OF assms] InitWrapper_repeat_cached)
qed

theorem C4_resolution_memoized_witness:
  "m_pActualPhysicsInterface s_PhysicsInterface = None
   \<and> Sys_LoadInterface (stub_platform [''vphysics_jolt_avx2.dll'']) []
        (selected_module (stub_platform [''vphysics_jolt_avx2.dll'']))
        (VPHYSICS_INTERFACE_VERSION (stub_platform [''vphysics_jolt_avx2.dll''])) = Some (4096, 8192)
   \<and> PhysicsWrapper_InitWrapper_repeat (stub_platform [''vphysics_jolt_avx2.dll'']) 3 s_PhysicsInterface [] =
       ([True, True, True],
        \<lparr>m_pActualPhysicsModule = Some 4096, m_pActualPhysicsInterface = Some 8192\<rparr>,
        [Sys_LoadInterface_call ''vphysics_jolt_avx2.dll'' ''VPhysics031'' (Some (4096, 8192))])"
proof -
  let ?h = "stub_platform [''vphysics_jolt_avx2.dll'']"
  have a: "m_pActualPhysicsInterface s_PhysicsInterface = None"
    by (simp add: s_PhysicsInterface_def)
  have b: "Sys_LoadInterface ?h [] (selected_module ?h) (VPHYSICS_INTERFACE_VERSION ?h) = Some (4096, 8192)"
    by (simp add: stub_selected_module) (simp add: stub_platform_def)
  have v: "VPHYSICS_INTERFACE_VERSION ?h = ''VPhysics031''"
    by (simp add: stub_platform_def)
  show ?thesis
    using a b C4_resolution_memoized [OF a b, of 2]
    by (simp add: stub_selected_module v s_PhysicsInterface_def numeral_3_eq_3)
qed

text \<open>
  C5. When \<open>Connect\<close> triggers the first resolution and the load fails, \<open>Connect\<close> returns
  false, the only event is the failed load (no call is dispatched to a delegate), and the
  object is as before, with a null delegate.
\<close>

theorem C5_Connect_propagates_failure:
  assumes "m_pActualPhysicsInterface this = None"
      and "Sys_LoadInterface h tr (selected_module h) (VPHYSICS_INTERFACE_VERSION h) = None"
  shows "PhysicsWrapper_Connect h this factory tr =
           (Inr (RetBool False), this,
            tr @ [Sys_LoadInterface_call (selected_module h) (VPHYSICS_INTERFACE_VERSION h) None])
         \<and> vcalls (snd (snd (PhysicsWrapper_Connect h this factory tr))) = vcalls tr
         \<and> m_pActualPhysicsInterface (fst (snd (PhysicsWrapper_Connect h this factory tr))) = None"
  using assms
  by (simp add: PhysicsWrapper_Connect_def InitWrapper_failed vcalls_def)

theorem C5_Connect_propagates_failure_witness:
  "m_pActualPhysicsInterface s_PhysicsInterface = None
   \<and> Sys_LoadInterface (stub_platform []) [] (selected_module (stub_platform []))
        (VPHYSICS_INTERFACE_VERSION (stub_platform [])) = None
   \<and> PhysicsWrapper_Connect (stub_platform []) s_PhysicsInterface (Some 99) [] =
       (Inr (RetBool False), s_PhysicsInterface,
        [Sys_LoadInterface_call ''vphysics_jolt_avx2.dll'' ''VPhysics031'' None])"
proof -
  let ?h = "stub_platform []"
  have a: "m_pActualPhysicsInterface s_PhysicsInterface = None"
    by (simp add: s_PhysicsInterface_def)
  have b: "Sys_LoadInterface ?h [] (selected_module ?h) (VPHYSICS_INTERFACE_VERSION ?h) = None"
    by (simp add: stub_platform_def)
  have v: "VPHYSICS_INTERFACE_VERSION ?h = ''VPhysics031''"
    by (simp add: stub_platform_def)
  show ?thesis
    using a b C5_Connect_propagates_failure [OF a b, of "Some 99"]
    by (simp add: stub_selected_module v)
qed

text \<open>
  C6. \<open>QueryInterface\<close> on a facade that is not resolved yet (no \<open>Connect\<close> before it)
  loads the module itself: when the load succeeds the query is forwarded to the new
  delegate and its answer is returned; when the load fails \<open>QueryInterface\<close> returns null
  to its caller and nothing is forwarded.
\<close>

theorem C6_QueryInterface_lazy:
  assumes "m_pActualPhysicsInterface this = None"
  shows "(Sys_LoadInterface h tr (selected_module h) (VPHYSICS_INTERFACE_VERSION h) = Some (m, i) \<longrightarrow>
            PhysicsWrapper_QueryInterface h this pInterfaceName tr =
              (Inr (IPhysics_impl h
                      (tr @ [Sys_LoadInterface_call (selected_module h) (VPHYSICS_INTERFACE_VERSION h) (Some (m, i))])
                      i (IPhysics_QueryInterface pInterfaceName)),
               this\<lparr>m_pActualPhysicsModule := Some m, m_pActualPhysicsInterface := Some i\<rparr>,
               tr @ [Sys_LoadInterface_call (selected_module h) (VPHYSICS_INTERFACE_VERSION h) (Some (m, i)),
                     IPhysics_vcall i (IPhysics_QueryInterface pInterfaceName)]))
         \<and> (Sys_LoadInterface h tr (selected_module h) (VPHYSICS_INTERFACE_VERSION h) = None \<longrightarrow>
            PhysicsWrapper_QueryInterface h this pInterfaceName tr =
              (Inr (RetPtr None), this,
               tr @ [Sys_LoadInterface_call (selected_module h) (VPHYSICS_INTERFACE_VERSION h) None]))"
  using assms
  by (simp add: PhysicsWrapper_QueryInterface_def InitWrapper_failed InitWrapper_loaded
      arrow_IPhysics_Some)

theorem C6_QueryInterface_lazy_witness:
  "m_pActualPhysicsInterface s_PhysicsInterface = None
   \<and> Sys_LoadInterface (stub_platform [''vphysics_jolt_avx2.dll'']) []
        (selected_module (stub_platform [''vphysics_jolt_avx2.dll'']))
        (VPHYSICS_INTERFACE_VERSION (stub_platform [''vphysics_jolt_avx2.dll''])) = Some (4096, 8192)
   \<and> PhysicsWrapper_QueryInterface (stub_platform [''vphysics_jolt_avx2.dll'']) s_PhysicsInterface (Some 77) [] =
       (Inr (RetPtr (Some 8200)),
        \<lparr>m_pActualPhysicsModule = Some 4096, m_pActualPhysicsInterface = Some 8192\<rparr>,
        [Sys_LoadInterface_call ''vphysics_jolt_avx2.dll'' ''VPhysics031'' (Some (4096, 8192)),
         IPhysics_vcall 8192 (IPhysics_QueryInterface (Some 77))])
   \<and> Sys_LoadInterface (stub_platform []) [] (selected_module (stub_platform []))
        (VPHYSICS_INTERFACE_VERSION (stub_platform [])) = None
   \<and> PhysicsWrapper_QueryInterface (stub_platform []) s_PhysicsInterface (Some 77) [] =
       (Inr (RetPtr None), s_PhysicsInterface,
        [Sys_LoadInterface_call ''vphysics_jolt_avx2.dll'' ''VPhysics031'' None])"
proof -
  let ?h = "stub_platform [''vphysics_jolt_avx2.dll'']"
  let ?f = "stub_platform []"
  have a: "m_pActualPhysicsInterface s_PhysicsInterface = None"
    by (simp add: s_PhysicsInterface_def)
  have b: "Sys_LoadInterface ?h [] (selected_module ?h) (VPHYSICS_INTERFACE_VERSION ?h) = Some (4096, 8192)"
    by (simp add: stub_selected_module) (simp add: stub_platform_def)
  have c: "Sys_LoadInterface ?f [] (selected_module ?f) (VPHYSICS_INTERFACE_VERSION ?f) = None"
    by (simp add: stub_platform_def)
  have v: "VPHYSICS_INTERFACE_VERSION ?h = ''VPhysics031''" "VPHYSICS_INTERFACE_VERSION ?f = ''VPhysics031''"
    "IPhysics_impl ?h = stub_IPhysics"
    by (simp_all add: stub_platform_def)
  show ?thesis
    using a b c C6_QueryInterface_lazy [OF a, of ?h "[]" 4096 8192 "Some 77"]
      C6_QueryInterface_lazy [OF a, of ?f "[]" 4096 8192 "Some 77"]
    by (simp add: stub_selected_module v s_PhysicsInterface_def stub_IPhysics_def)
qed

section \<open>Forwarding\<close>

lemmas PhysicsWrapper_defs =
  PhysicsWrapper_Connect_def PhysicsWrapper_Disconnect_def PhysicsWrapper_Init_def
  PhysicsWrapper_Shutdown_def PhysicsWrapper_QueryInterface_def
  PhysicsWrapper_CreateEnvironment_def PhysicsWrapper_DestroyEnvironment_def
  PhysicsWrapper_GetActiveEnvironmentByIndex_def PhysicsWrapper_CreateObjectPairHash_def
  PhysicsWrapper_DestroyObjectPairHash_def PhysicsWrapper_FindOrCreateCollisionSet_def
  PhysicsWrapper_FindCollisionSet_def PhysicsWrapper_DestroyAllCollisionSets_def

lemmas PhysicsSurfacePropsWrapper_defs =
  PhysicsSurfacePropsWrapper_ParseSurfaceData_def
  PhysicsSurfacePropsWrapper_SurfacePropCount_def PhysicsSurfacePropsWrapper_GetSurfaceIndex_def
  PhysicsSurfacePropsWrapper_GetPhysicsProperties_def
  PhysicsSurfacePropsWrapper_GetSurfaceData_def PhysicsSurfacePropsWrapper_GetString_def
  PhysicsSurfacePropsWrapper_GetPropName_def
  PhysicsSurfacePropsWrapper_SetWorldMaterialIndexTable_def
  PhysicsSurfacePropsWrapper_GetPhysicsParameters_def
  PhysicsSurfacePropsWrapper_GetMaterialIndexDataOps_def
  PhysicsSurfacePropsWrapper_GetIVPMaterial_def
  PhysicsSurfacePropsWrapper_GetIVPMaterialIndex_def
  PhysicsSurfacePropsWrapper_GetIVPManager_def
  PhysicsSurfacePropsWrapper_RemapIVPMaterialIndex_def
  PhysicsSurfacePropsWrapper_GetReservedMaterialName_def

lemmas PhysicsCollisionWrapper_defs =
  PhysicsCollisionWrapper_ConvexFromVerts_def PhysicsCollisionWrapper_ConvexFromPlanes_def
  PhysicsCollisionWrapper_ConvexVolume_def PhysicsCollisionWrapper_ConvexSurfaceArea_def
  PhysicsCollisionWrapper_SetConvexGameData_def PhysicsCollisionWrapper_ConvexFree_def
  PhysicsCollisionWrapper_BBoxToConvex_def
  PhysicsCollisionWrapper_ConvexFromConvexPolyhedron_def
  PhysicsCollisionWrapper_ConvexesFromConvexPolygon_def
  PhysicsCollisionWrapper_PolysoupCreate_def PhysicsCollisionWrapper_PolysoupDestroy_def
  PhysicsCollisionWrapper_PolysoupAddTriangle_def
  PhysicsCollisionWrapper_ConvertPolysoupToCollide_def
  PhysicsCollisionWrapper_ConvertConvexToCollide_def
  PhysicsCollisionWrapper_ConvertConvexToCollideParams_def
  PhysicsCollisionWrapper_DestroyCollide_def PhysicsCollisionWrapper_CollideSize_def
  PhysicsCollisionWrapper_CollideWrite_def PhysicsCollisionWrapper_UnserializeCollide_def
  PhysicsCollisionWrapper_CollideVolume_def PhysicsCollisionWrapper_CollideSurfaceArea_def
  PhysicsCollisionWrapper_CollideGetExtent_def PhysicsCollisionWrapper_CollideGetAABB_def
  PhysicsCollisionWrapper_CollideGetMassCenter_def
  PhysicsCollisionWrapper_CollideSetMassCenter_def
  PhysicsCollisionWrapper_CollideGetOrthographicAreas_def
  PhysicsCollisionWrapper_CollideSetOrthographicAreas_def
  PhysicsCollisionWrapper_CollideIndex_def PhysicsCollisionWrapper_BBoxToCollide_def
  PhysicsCollisionWrapper_GetConvexesUsedInCollideable_def PhysicsCollisionWrapper_TraceBox_def
  PhysicsCollisionWrapper_TraceBox_ray_def PhysicsCollisionWrapper_TraceBox_ray_mask_def
  PhysicsCollisionWrapper_TraceCollide_def PhysicsCollisionWrapper_IsBoxIntersectingCone_def
  PhysicsCollisionWrapper_VCollideLoad_def PhysicsCollisionWrapper_VCollideUnload_def
  PhysicsCollisionWrapper_VPhysicsKeyParserCreate_def
  PhysicsCollisionWrapper_VPhysicsKeyParserCreate_vcollide_def
  PhysicsCollisionWrapper_VPhysicsKeyParserDestroy_def
  PhysicsCollisionWrapper_CreateDebugMesh_def PhysicsCollisionWrapper_DestroyDebugMesh_def
  PhysicsCollisionWrapper_CreateQueryModel_def PhysicsCollisionWrapper_DestroyQueryModel_def
  PhysicsCollisionWrapper_ThreadContextCreate_def
  PhysicsCollisionWrapper_ThreadContextDestroy_def PhysicsCollisionWrapper_CreateVirtualMesh_def
  PhysicsCollisionWrapper_SupportsVirtualMesh_def PhysicsCollisionWrapper_GetBBoxCacheSize_def
  PhysicsCollisionWrapper_PolyhedronFromConvex_def PhysicsCollisionWrapper_OutputDebugInfo_def
  PhysicsCollisionWrapper_ReadStat_def PhysicsCollisionWrapper_CollideGetRadius_def
  PhysicsCollisionWrapper_VCollideAllocUserData_def
  PhysicsCollisionWrapper_VCollideFreeUserData_def PhysicsCollisionWrapper_VCollideCheck_def
  PhysicsCollisionWrapper_TraceBoxAA_def PhysicsCollisionWrapper_DuplicateAndScale_def

subsection \<open>\<^verbatim>\<open>PhysicsWrapper\<close>\<close>

lemma PhysicsWrapper_vtable_resolved:
  assumes "m_pActualPhysicsInterface this = Some p"
  shows "PhysicsWrapper_vtable h this c tr =
         (returned (IPhysics_returns_void c) (IPhysics_impl h tr p c), this,
          tr @ IPhysics_vcall p c #
            (if c = IPhysics_Disconnect then [Sys_UnloadModule_call (m_pActualPhysicsModule this)]
             else []))"
  using assms
  by (cases c)
     (simp_all add: PhysicsWrapper_defs arrow_IPhysics_Some InitWrapper_cached discard_def
        returned_def Sys_UnloadModule_def)

lemma PhysicsWrapper_vtable_null:
  assumes "m_pActualPhysicsInterface this = None" and "\<not> calls_InitWrapper c"
  shows "PhysicsWrapper_vtable h this c tr = (Inl NullDereference, this, tr)"
  using assms
  by (cases c) (simp_all add: PhysicsWrapper_defs arrow_IPhysics_None discard_def)

subsection \<open>\<^verbatim>\<open>PhysicsSurfacePropsWrapper\<close>\<close>

lemma arrow_SurfaceProps_msg:
  assumes "m_pActualPhysicsSurfacePropsInterface this = Some p"
  shows "\<exists>msgs. m_pActualPhysicsSurfacePropsInterface_arrow h this c (Msg_Debug_Entering h cls fn tr) =
           (Inr (IPhysicsSurfaceProps_impl h (tr @ map Msg_call msgs) p c), this,
            tr @ map Msg_call msgs @ [IPhysicsSurfaceProps_vcall p c])"
  using assms
  by (intro exI [of _ "[''Debug: Entering '' @ FUNCTION h cls fn @ [CHR 0x0A]]"])
     (simp add: m_pActualPhysicsSurfacePropsInterface_arrow_def Msg_Debug_Entering_def)

lemma arrow_SurfaceProps_msg_void:
  assumes "m_pActualPhysicsSurfacePropsInterface this = Some p"
  shows "\<exists>msgs. discard (m_pActualPhysicsSurfacePropsInterface_arrow h this c (Msg_Debug_Entering h cls fn tr)) =
           (Inr RetVoid, this, tr @ map Msg_call msgs @ [IPhysicsSurfaceProps_vcall p c])"
  using assms
  by (intro exI [of _ "[''Debug: Entering '' @ FUNCTION h cls fn @ [CHR 0x0A]]"])
     (simp add: m_pActualPhysicsSurfacePropsInterface_arrow_def Msg_Debug_Entering_def discard_def)

lemma PhysicsSurfacePropsWrapper_vtable_resolved:
  assumes "m_pActualPhysicsSurfacePropsInterface this = Some p"
  shows "\<exists>msgs. PhysicsSurfacePropsWrapper_vtable h this c tr =
           (returned (IPhysicsSurfaceProps_returns_void c)
              (IPhysicsSurfaceProps_impl h (tr @ map Msg_call msgs) p c), this,
            tr @ map Msg_call msgs @ [IPhysicsSurfaceProps_vcall p c])"
  using assms
  by (cases c)
     (simp_all add: PhysicsSurfacePropsWrapper_defs returned_def Let_def
        arrow_SurfaceProps_msg arrow_SurfaceProps_msg_void)

lemma arrow_SurfaceProps_null_msg:
  assumes "m_pActualPhysicsSurfacePropsInterface this = None"
  shows "\<exists>msgs. m_pActualPhysicsSurfacePropsInterface_arrow h this c (Msg_Debug_Entering h cls fn tr) =
           (Inl NullDereference, this, tr @ map Msg_call msgs)"
  using assms
  by (intro exI [of _ "[''Debug: Entering '' @ FUNCTION h cls fn @ [CHR 0x0A]]"])
     (simp add: m_pActualPhysicsSurfacePropsInterface_arrow_def Msg_Debug_Entering_def)

lemma arrow_SurfaceProps_null_msg_void:
  assumes "m_pActualPhysicsSurfacePropsInterface this = None"
  shows "\<exists>msgs. discard (m_pActualPhysicsSurfacePropsInterface_arrow h this c (Msg_Debug_Entering h cls fn tr)) =
           (Inl NullDereference, this, tr @ map Msg_call msgs)"
  using assms
  by (intro exI [of _ "[''Debug: Entering '' @ FUNCTION h cls fn @ [CHR 0x0A]]"])
     (simp add: m_pActualPhysicsSurfacePropsInterface_arrow_def Msg_Debug_Entering_def discard_def)

lemma PhysicsSurfacePropsWrapper_vtable_null:
  assumes "m_pActualPhysicsSurfacePropsInterface this = None"
  shows "\<exists>msgs. PhysicsSurfacePropsWrapper_vtable h this c tr =
           (Inl NullDereference, this, tr @ map Msg_call msgs)"
  using assms
  by (cases c)
     (simp_all add: PhysicsSurfacePropsWrapper_defs Let_def
        arrow_SurfaceProps_null_msg arrow_SurfaceProps_null_msg_void)

lemma PhysicsSurfacePropsWrapper_vtable_loads:
  "loads (snd (snd (PhysicsSurfacePropsWrapper_vtable h this c tr))) = loads tr"
proof (cases "m_pActualPhysicsSurfacePropsInterface this")
  case None
  from PhysicsSurfacePropsWrapper_vtable_null [OF this, of h c tr]
  show ?thesis by (auto simp: loads_append loads_Msg)
next
  case (Some p)
  from PhysicsSurfacePropsWrapper_vtable_resolved [OF this, of h c tr]
  show ?thesis by (auto simp: loads_append loads_Msg) (simp add: loads_def)
qed

subsection \<open>\<^verbatim>\<open>PhysicsCollisionWrapper\<close>\<close>

lemma arrow_Collision_msg:
  assumes "m_pActualPhysicsCollisionInterface this = Some p"
  shows "\<exists>msgs. m_pActualPhysicsCollisionInterface_arrow h this c (Msg_Debug_Entering h cls fn tr) =
           (Inr (IPhysicsCollision_impl h (tr @ map Msg_call msgs) p c), this,
            tr @ map Msg_call msgs @ [IPhysicsCollision_vcall p c])"
  using assms
  by (intro exI [of _ "[''Debug: Entering '' @ FUNCTION h cls fn @ [CHR 0x0A]]"])
     (simp add: m_pActualPhysicsCollisionInterface_arrow_def Msg_Debug_Entering_def)

lemma arrow_Collision_msg_void:
  assumes "m_pActualPhysicsCollisionInterface this = Some p"
  shows "\<exists>msgs. discard (m_pActualPhysicsCollisionInterface_arrow h this c (Msg_Debug_Entering h cls fn tr)) =
           (Inr RetVoid, this, tr @ map Msg_call msgs @ [IPhysicsCollision_vcall p c])"
  using assms
  by (intro exI [of _ "[''Debug: Entering '' @ FUNCTION h cls fn @ [CHR 0x0A]]"])
     (simp add: m_pActualPhysicsCollisionInterface_arrow_def Msg_Debug_Entering_def discard_def)

lemma arrow_Collision_void:
  assumes "m_pActualPhysicsCollisionInterface this = Some p"
  shows "\<exists>msgs. discard (m_pActualPhysicsCollisionInterface_arrow h this c tr) =
           (Inr RetVoid, this, tr @ map Msg_call msgs @ [IPhysicsCollision_vcall p c])"
  using assms
  by (intro exI [of _ "[]"])
     (simp add: m_pActualPhysicsCollisionInterface_arrow_def discard_def)

lemma PhysicsCollisionWrapper_vtable_resolved:
  assumes "m_pActualPhysicsCollisionInterface this = Some p"
  shows "\<exists>msgs. PhysicsCollisionWrapper_vtable h this c tr =
           (returned (IPhysicsCollision_returns_void c)
              (IPhysicsCollision_impl h (tr @ map Msg_call msgs) p c), this,
            tr @ map Msg_call msgs @ [IPhysicsCollision_vcall p c])"
  using assms
  by (cases c)
     (simp_all add: PhysicsCollisionWrapper_defs returned_def Let_def
        arrow_Collision_msg arrow_Collision_msg_void arrow_Collision_void)

lemma arrow_Collision_null_msg:
  assumes "m_pActualPhysicsCollisionInterface this = None"
  shows "\<exists>msgs. m_pActualPhysicsCollisionInterface_arrow h this c (Msg_Debug_Entering h cls fn tr) =
           (Inl NullDereference, this, tr @ map Msg_call msgs)"
  using assms
  by (intro exI [of _ "[''Debug: Entering '' @ FUNCTION h cls fn @ [CHR 0x0A]]"])
     (simp add: m_pActualPhysicsCollisionInterface_arrow_def Msg_Debug_Entering_def)

lemma arrow_Collision_null_msg_void:
  assumes "m_pActualPhysicsCollisionInterface this = None"
  shows "\<exists>msgs. discard (m_pActualPhysicsCollisionInterface_arrow h this c (Msg_Debug_Entering h cls fn tr)) =
           (Inl NullDereference, this, tr @ map Msg_call msgs)"
  using assms
  by (intro exI [of _ "[''Debug: Entering '' @ FUNCTION h cls fn @ [CHR 0x0A]]"])
     (simp add: m_pActualPhysicsCollisionInterface_arrow_def Msg_Debug_Entering_def discard_def)

lemma arrow_Collision_null_void:
  assumes "m_pActualPhysicsCollisionInterface this = None"
  shows "\<exists>msgs. discard (m_pActualPhysicsCollisionInterface_arrow h this c tr) =
           (Inl NullDereference, this, tr @ map Msg_call msgs)"
  using assms
  by (intro exI [of _ "[]"])
     (simp add: m_pActualPhysicsCollisionInterface_arrow_def discard_def)

lemma PhysicsCollisionWrapper_vtable_null:
  assumes "m_pActualPhysicsCollisionInterface this = None"
  shows "\<exists>msgs. PhysicsCollisionWrapper_vtable h this c tr =
           (Inl NullDereference, this, tr @ map Msg_call msgs)"
  using assms
  by (cases c)
     (simp_all add: PhysicsCollisionWrapper_defs Let_def
        arrow_Collision_null_msg arrow_Collision_null_msg_void arrow_Collision_null_void)

lemma PhysicsCollisionWrapper_vtable_loads:
  "loads (snd (snd (PhysicsCollisionWrapper_vtable h this c tr))) = loads tr"
proof (cases "m_pActualPhysicsCollisionInterface this")
  case None
  from PhysicsCollisionWrapper_vtable_null [OF this, of h c tr]
  show ?thesis by (auto simp: loads_append loads_Msg)
next
  case (Some p)
  from PhysicsCollisionWrapper_vtable_resolved [OF this, of h c tr]
  show ?thesis by (auto simp: loads_append loads_Msg) (simp add: loads_def)
qed

subsection \<open>The claims on forwarding\<close>

text \<open>
  C3. With a resolved delegate, every method of each of the three facades dispatches the
  method of the same name to the delegate with the arguments it was given, returns the
  value the delegate returned (nothing for a \<open>void\<close> method) and leaves the facade as it
  was. The only other events are the debug messages printed before the call and, for
  \<open>Disconnect\<close>, the unload of the module after it.
\<close>

theorem C3_forwarding_is_verbatim:
  assumes "m_pActualPhysicsInterface w = Some p"
      and "m_pActualPhysicsSurfacePropsInterface s = Some q"
      and "m_pActualPhysicsCollisionInterface k = Some r"
  shows "PhysicsWrapper_vtable h w c1 tr =
           (returned (IPhysics_returns_void c1) (IPhysics_impl h tr p c1), w,
            tr @ IPhysics_vcall p c1 #
              (if c1 = IPhysics_Disconnect then [Sys_UnloadModule_call (m_pActualPhysicsModule w)]
               else []))
         \<and> (\<exists>msgs. PhysicsSurfacePropsWrapper_vtable h s c2 tr =
               (returned (IPhysicsSurfaceProps_returns_void c2)
                  (IPhysicsSurfaceProps_impl h (tr @ map Msg_call msgs) q c2), s,
                tr @ map Msg_call msgs @ [IPhysicsSurfaceProps_vcall q c2]))
         \<and> (\<exists>msgs. PhysicsCollisionWrapper_vtable h k c3 tr =
               (returned (IPhysicsCollision_returns_void c3)
                  (IPhysicsCollision_impl h (tr @ map Msg_call msgs) r c3), k,
                tr @ map Msg_call msgs @ [IPhysicsCollision_vcall r c3]))"
  using PhysicsWrapper_vtable_resolved [OF assms(1)]
    PhysicsSurfacePropsWrapper_vtable_resolved [OF assms(2)]
    PhysicsCollisionWrapper_vtable_resolved [OF assms(3)]
  by blast

theorem C3_forwarding_is_verbatim_witness:
  "m_pActualPhysicsInterface \<lparr>m_pActualPhysicsModule = Some 4096, m_pActualPhysicsInterface = Some 8192\<rparr> = Some 8192
   \<and> m_pActualPhysicsSurfacePropsInterface
        \<lparr>m_pActualPhysicsSurfacePropsModule = Some 4096, m_pActualPhysicsSurfacePropsInterface = Some 8192\<rparr> = Some 8192
   \<and> m_pActualPhysicsCollisionInterface
        \<lparr>m_pActualPhysicsCollisionModule = Some 4096, m_pActualPhysicsCollisionInterface = Some 8192\<rparr> = Some 8192
   \<and> PhysicsWrapper_vtable (stub_platform [''vphysics_jolt_avx2.dll''])
        \<lparr>m_pActualPhysicsModule = Some 4096, m_pActualPhysicsInterface = Some 8192\<rparr>
        (IPhysics_FindCollisionSet 7) [] =
       (Inr (RetPtr (Some 107)),
        \<lparr>m_pActualPhysicsModule = Some 4096, m_pActualPhysicsInterface = Some 8192\<rparr>,
        [IPhysics_vcall 8192 (IPhysics_FindCollisionSet 7)])
   \<and> PhysicsSurfacePropsWrapper_vtable (stub_platform [''vphysics_jolt_avx2.dll''])
        \<lparr>m_pActualPhysicsSurfacePropsModule = Some 4096, m_pActualPhysicsSurfacePropsInterface = Some 8192\<rparr>
        (IPhysicsSurfaceProps_GetSurfaceIndex (Some 5)) [] =
       (Inr (RetInt 1),
        \<lparr>m_pActualPhysicsSurfacePropsModule = Some 4096, m_pActualPhysicsSurfacePropsInterface = Some 8192\<rparr>,
        [Msg_call (''Debug: Entering PhysicsSurfacePropsWrapper::GetSurfaceIndex'' @ [CHR 0x0A]),
         IPhysicsSurfaceProps_vcall 8192 (IPhysicsSurfaceProps_GetSurfaceIndex (Some 5))])
   \<and> PhysicsCollisionWrapper_vtable (stub_platform [''vphysics_jolt_avx2.dll''])
        \<lparr>m_pActualPhysicsCollisionModule = Some 4096, m_pActualPhysicsCollisionInterface = Some 8192\<rparr>
        (IPhysicsCollision_CollideVolume (Some 3)) [] =
       (Inr (RetFloat 3),
        \<lparr>m_pActualPhysicsCollisionModule = Some 4096, m_pActualPhysicsCollisionInterface = Some 8192\<rparr>,
        [Msg_call (''Debug: Entering PhysicsCollisionWrapper::CollideVolume'' @ [CHR 0x0A]),
         IPhysicsCollision_vcall 8192 (IPhysicsCollision_CollideVolume (Some 3))])"
proof -
  let ?h = "stub_platform [''vphysics_jolt_avx2.dll'']"
  let ?w = "\<lparr>m_pActualPhysicsModule = Some 4096, m_pActualPhysicsInterface = Some 8192\<rparr>"
  let ?s = "\<lparr>m_pActualPhysicsSurfacePropsModule = Some 4096, m_pActualPhysicsSurfacePropsInterface = Some 8192\<rparr>"
  let ?k = "\<lparr>m_pActualPhysicsCollisionModule = Some 4096, m_pActualPhysicsCollisionInterface = Some 8192\<rparr>"
  have a: "m_pActualPhysicsInterface ?w = Some 8192" by simp
  have b: "m_pActualPhysicsSurfacePropsInterface ?s = Some 8192" by simp
  have c: "m_pActualPhysicsCollisionInterface ?k = Some 8192" by simp
  show ?thesis
    using C3_forwarding_is_verbatim [OF a b c, of ?h "IPhysics_FindCollisionSet 7" "[]"
        "IPhysicsSurfaceProps_GetSurfaceIndex (Some 5)" "IPhysicsCollision_CollideVolume (Some 3)"]
    by (simp add: stub_fields stub_IPhysics_def stub_IPhysicsSurfaceProps_def
        stub_IPhysicsCollision_def returned_def
        PhysicsSurfacePropsWrapper_GetSurfaceIndex_def PhysicsCollisionWrapper_CollideVolume_def
        m_pActualPhysicsSurfacePropsInterface_arrow_def m_pActualPhysicsCollisionInterface_arrow_def
        Msg_Debug_Entering_def Let_def)
qed

text \<open>
  C2, as stated: no operation of a facade dereferences a null delegate. On a platform
  where no module can be loaded, \<open>Init\<close> on the environment facade and
  \<open>ParseSurfaceData\<close> on the surface-properties facade, whose constructor has just failed
  to load, both dereference the null delegate.
\<close>

theorem C2_counterexample_null_dereference:
  "fst (PhysicsWrapper_Init (stub_platform []) s_PhysicsInterface []) = Inl NullDereference
   \<and> fst (PhysicsSurfacePropsWrapper_ParseSurfaceData (stub_platform [])
            (fst (s_PhysicsSurfaceProps (stub_platform []) [])) (Some 1) (Some 2)
            (snd (s_PhysicsSurfaceProps (stub_platform []) []))) = Inl NullDereference"
  by (simp add: stub_failed_ctor PhysicsWrapper_Init_def s_PhysicsInterface_def
      m_pActualPhysicsInterface_arrow_def PhysicsSurfacePropsWrapper_ParseSurfaceData_def
      m_pActualPhysicsSurfacePropsInterface_arrow_def Let_def)

text \<open>
  C2, amended. Only \<open>Connect\<close> and \<open>QueryInterface\<close> of the environment facade check the
  resolution: when the load fails they return false and null. Every other method of the
  three facades dereferences its delegate pointer as it is, so with a null delegate it is
  a null dereference.
\<close>

theorem C2_only_Connect_and_QueryInterface_check:
  assumes "m_pActualPhysicsInterface w = None"
      and "m_pActualPhysicsSurfacePropsInterface s = None"
      and "m_pActualPhysicsCollisionInterface k = None"
  shows "(Sys_LoadInterface h tr (selected_module h) (VPHYSICS_INTERFACE_VERSION h) = None \<longrightarrow>
            fst (PhysicsWrapper_Connect h w factory tr) = Inr (RetBool False)
            \<and> fst (PhysicsWrapper_QueryInterface h w pInterfaceName tr) = Inr (RetPtr None))
         \<and> (\<not> calls_InitWrapper c1 \<longrightarrow> fst (PhysicsWrapper_vtable h w c1 tr) = Inl NullDereference)
         \<and> fst (PhysicsSurfacePropsWrapper_vtable h s c2 tr) = Inl NullDereference
         \<and> fst (PhysicsCollisionWrapper_vtable h k c3 tr) = Inl NullDereference"
proof -
  from PhysicsSurfacePropsWrapper_vtable_null [OF assms(2), of h c2 tr]
  have s: "fst (PhysicsSurfacePropsWrapper_vtable h s c2 tr) = Inl NullDereference" by auto
  from PhysicsCollisionWrapper_vtable_null [OF assms(3), of h c3 tr]
  have k: "fst (PhysicsCollisionWrapper_vtable h k c3 tr) = Inl NullDereference" by auto
  show ?thesis
    using assms(1) s k
    by (simp add: PhysicsWrapper_vtable_null PhysicsWrapper_Connect_def
        PhysicsWrapper_QueryInterface_def InitWrapper_failed)
qed

theorem C2_only_Connect_and_QueryInterface_check_witness:
  "m_pActualPhysicsInterface s_PhysicsInterface = None
   \<and> m_pActualPhysicsSurfacePropsInterface (fst (s_PhysicsSurfaceProps (stub_platform []) [])) = None
   \<and> m_pActualPhysicsCollisionInterface (fst (s_PhysicsCollision (stub_platform []) [])) = None
   \<and> Sys_LoadInterface (stub_platform []) [] (selected_module (stub_platform []))
        (VPHYSICS_INTERFACE_VERSION (stub_platform [])) = None
   \<and> fst (PhysicsWrapper_Connect (stub_platform []) s_PhysicsInterface (Some 99) []) = Inr (RetBool False)
   \<and> fst (PhysicsWrapper_QueryInterface (stub_platform []) s_PhysicsInterface (Some 77) []) = Inr (RetPtr None)
   \<and> \<not> calls_InitWrapper IPhysics_Init
   \<and> fst (PhysicsWrapper_vtable (stub_platform []) s_PhysicsInterface IPhysics_Init []) = Inl NullDereference
   \<and> fst (PhysicsSurfacePropsWrapper_vtable (stub_platform [])
            (fst (s_PhysicsSurfaceProps (stub_platform []) []))
            (IPhysicsSurfaceProps_ParseSurfaceData (Some 1) (Some 2)) []) = Inl NullDereference
   \<and> fst (PhysicsCollisionWrapper_vtable (stub_platform [])
            (fst (s_PhysicsCollision (stub_platform []) []))
            (IPhysicsCollision_CollideVolume (Some 3)) []) = Inl NullDereference"
proof -
  let ?f = "stub_platform []"
  have a: "m_pActualPhysicsInterface s_PhysicsInterface = None"
    by (simp add: s_PhysicsInterface_def)
  have b: "m_pActualPhysicsSurfacePropsInterface (fst (s_PhysicsSurfaceProps ?f [])) = None"
    by (simp add: s_PhysicsSurfaceProps_delegate stub_fields)
  have c: "m_pActualPhysicsCollisionInterface (fst (s_PhysicsCollision ?f [])) = None"
    by (simp add: s_PhysicsCollision_delegate stub_fields)
  have d: "Sys_LoadInterface ?f [] (selected_module ?f) (VPHYSICS_INTERFACE_VERSION ?f) = None"
    by (simp add: stub_fields)
  show ?thesis
    using a b c d
      C2_only_Connect_and_QueryInterface_check [OF a b c, of ?f "[]" "Some 99" "Some 77"
        IPhysics_Init "IPhysicsSurfaceProps_ParseSurfaceData (Some 1) (Some 2)"
        "IPhysicsCollision_CollideVolume (Some 3)"]
    by simp
qed

section \<open>Lazy and eager resolution, and what follows a failed load\<close>

lemma PhysicsWrapper_vtable_unresolved_loads:
  assumes "m_pActualPhysicsInterface this = None" and "calls_InitWrapper c"
  shows "loads (snd (snd (PhysicsWrapper_vtable h this c tr))) =
         loads tr @
         [Sys_LoadInterface_call (selected_module h) (VPHYSICS_INTERFACE_VERSION h)
            (Sys_LoadInterface h tr (selected_module h) (VPHYSICS_INTERFACE_VERSION h))]"
proof (cases "Sys_LoadInterface h tr (selected_module h) (VPHYSICS_INTERFACE_VERSION h)")
  case None
  with assms show ?thesis
    by (cases c)
       (simp_all add: PhysicsWrapper_Connect_def PhysicsWrapper_QueryInterface_def
          InitWrapper_failed loads_snoc_load)
next
  case (Some mi)
  then obtain m i where "Sys_LoadInterface h tr (selected_module h) (VPHYSICS_INTERFACE_VERSION h) = Some (m, i)"
    by (cases mi) simp
  with assms show ?thesis
    by (cases c)
       (simp_all add: PhysicsWrapper_Connect_def PhysicsWrapper_QueryInterface_def
          InitWrapper_loaded arrow_IPhysics_Some loads_def)
qed

text \<open>
  C9. The environment facade is the only lazy one: its object starts with a null delegate
  and nothing is loaded until \<open>Connect\<close> or \<open>QueryInterface\<close>, each of which then makes the
  load for the module selected by \<open>GetCPULevel\<close>. The surface-properties and the collision
  facade make that load in their constructor, which sets the delegate from its outcome,
  and none of their methods ever loads.
\<close>

theorem C9_one_lazy_two_eager:
  "m_pActualPhysicsInterface s_PhysicsInterface = None
   \<and> loads (snd (snd (PhysicsWrapper_Connect h s_PhysicsInterface factory tr))) =
       loads tr @
       [Sys_LoadInterface_call (selected_module h) (VPHYSICS_INTERFACE_VERSION h)
          (Sys_LoadInterface h tr (selected_module h) (VPHYSICS_INTERFACE_VERSION h))]
   \<and> loads (snd (snd (PhysicsWrapper_QueryInterface h s_PhysicsInterface pInterfaceName tr))) =
       loads tr @
       [Sys_LoadInterface_call (selected_module h) (VPHYSICS_INTERFACE_VERSION h)
          (Sys_LoadInterface h tr (selected_module h) (VPHYSICS_INTERFACE_VERSION h))]
   \<and> loads (snd (s_PhysicsSurfaceProps h tr)) =
       loads tr @
       [Sys_LoadInterface_call (selected_module h) (VPHYSICS_SURFACEPROPS_INTERFACE_VERSION h)
          (Sys_LoadInterface h
             (Msg_Debug_Entering h ''PhysicsSurfacePropsWrapper'' ''PhysicsSurfacePropsWrapper'' tr)
             (selected_module h) (VPHYSICS_SURFACEPROPS_INTERFACE_VERSION h))]
   \<and> m_pActualPhysicsSurfacePropsInterface (fst (s_PhysicsSurfaceProps h tr)) =
       map_option snd
         (Sys_LoadInterface h
            (Msg_Debug_Entering h ''PhysicsSurfacePropsWrapper'' ''PhysicsSurfacePropsWrapper'' tr)
            (selected_module h) (VPHYSICS_SURFACEPROPS_INTERFACE_VERSION h))
   \<and> loads (snd (snd (PhysicsSurfacePropsWrapper_vtable h s c2 tr))) = loads tr
   \<and> loads (snd (s_PhysicsCollision h tr)) =
       loads tr @
       [Sys_LoadInterface_call (selected_module h) (VPHYSICS_COLLISION_INTERFACE_VERSION h)
          (Sys_LoadInterface h
             (Msg_Debug_Entering h ''PhysicsCollisionWrapper'' ''PhysicsCollisionWrapper'' tr)
             (selected_module h) (VPHYSICS_COLLISION_INTERFACE_VERSION h))]
   \<and> m_pActualPhysicsCollisionInterface (fst (s_PhysicsCollision h tr)) =
       map_option snd
         (Sys_LoadInterface h
            (Msg_Debug_Entering h ''PhysicsCollisionWrapper'' ''PhysicsCollisionWrapper'' tr)
            (selected_module h) (VPHYSICS_COLLISION_INTERFACE_VERSION h))
   \<and> loads (snd (snd (PhysicsCollisionWrapper_vtable h k c3 tr))) = loads tr"
proof -
  have a: "m_pActualPhysicsInterface s_PhysicsInterface = None"
    by (simp add: s_PhysicsInterface_def)
  have c: "calls_InitWrapper (IPhysics_Connect factory)"
    and q: "calls_InitWrapper (IPhysics_QueryInterface pInterfaceName)"
    by simp_all
  show ?thesis
    using a PhysicsWrapper_vtable_unresolved_loads [OF a c, of h tr]
      PhysicsWrapper_vtable_unresolved_loads [OF a q, of h tr]
    by (simp add: s_PhysicsSurfaceProps_loads s_PhysicsCollision_loads
        s_PhysicsSurfaceProps_delegate s_PhysicsCollision_delegate
        PhysicsSurfacePropsWrapper_vtable_loads PhysicsCollisionWrapper_vtable_loads)
qed

text \<open>
  C8, as stated: after a failed resolution no later operation attempts the load again. On
  a platform where no module can be loaded, \<open>QueryInterface\<close> followed by \<open>Connect\<close> on
  the environment facade makes two load attempts.
\<close>

theorem C8_counterexample_load_attempted_again:
  "PhysicsWrapper_run (stub_platform []) s_PhysicsInterface
     [IPhysics_QueryInterface (Some 77), IPhysics_Connect (Some 99)] [] =
     ([Inr (RetPtr None), Inr (RetBool False)], s_PhysicsInterface,
      [Sys_LoadInterface_call ''vphysics_jolt_avx2.dll'' ''VPhysics031'' None,
       Sys_LoadInterface_call ''vphysics_jolt_avx2.dll'' ''VPhysics031'' None])"
proof -
  let ?f = "stub_platform []"
  have a: "m_pActualPhysicsInterface s_PhysicsInterface = None"
    by (simp add: s_PhysicsInterface_def)
  have b: "Sys_LoadInterface ?f tr (selected_module ?f) (VPHYSICS_INTERFACE_VERSION ?f) = None" for tr
    by (simp add: stub_fields)
  show ?thesis
    by (simp add: PhysicsWrapper_QueryInterface_def PhysicsWrapper_Connect_def
        InitWrapper_failed [OF a b] stub_selected_module stub_fields)
qed

text \<open>
  C8, amended. A failed attempt is not recorded: \<open>InitWrapper\<close> makes one load attempt
  and leaves the object as it was, with a null delegate. On that object every later
  \<open>Connect\<close> or \<open>QueryInterface\<close> attempts the load again, and the other methods of the
  environment facade attempt none (they dereference the null delegate). No method of the
  surface-properties or the collision facade attempts a load, in any state.
\<close>

theorem C8_failure_is_not_recorded:
  assumes "m_pActualPhysicsInterface this = None"
  shows "(Sys_LoadInterface h tr (selected_module h) (VPHYSICS_INTERFACE_VERSION h) = None \<longrightarrow>
            PhysicsWrapper_InitWrapper h this tr =
              (False, this,
               tr @ [Sys_LoadInterface_call (selected_module h) (VPHYSICS_INTERFACE_VERSION h) None]))
         \<and> (calls_InitWrapper c \<longrightarrow>
              loads (snd (snd (PhysicsWrapper_vtable h this c tr))) =
                loads tr @
                [Sys_LoadInterface_call (selected_module h) (VPHYSICS_INTERFACE_VERSION h)
                   (Sys_LoadInterface h tr (selected_module h) (VPHYSICS_INTERFACE_VERSION h))])
         \<and> (\<not> calls_InitWrapper c \<longrightarrow>
              PhysicsWrapper_vtable h this c tr = (Inl NullDereference, this, tr))
         \<and> loads (snd (snd (PhysicsSurfacePropsWrapper_vtable h s c2 tr))) = loads tr
         \<and> loads (snd (snd (PhysicsCollisionWrapper_vtable h k c3 tr))) = loads tr"
  using assms
  by (simp add: InitWrapper_failed PhysicsWrapper_vtable_unresolved_loads
      PhysicsWrapper_vtable_null PhysicsSurfacePropsWrapper_vtable_loads
      PhysicsCollisionWrapper_vtable_loads)

theorem C8_failure_is_not_recorded_witness:
  "m_pActualPhysicsInterface s_PhysicsInterface = None
   \<and> Sys_LoadInterface (stub_platform []) [] (selected_module (stub_platform []))
        (VPHYSICS_INTERFACE_VERSION (stub_platform [])) = None
   \<and> PhysicsWrapper_InitWrapper (stub_platform []) s_PhysicsInterface [] =
       (False, s_PhysicsInterface,
        [Sys_LoadInterface_call ''vphysics_jolt_avx2.dll'' ''VPhysics031'' None])
   \<and> calls_InitWrapper (IPhysics_Connect (Some 99))
   \<and> loads (snd (snd (PhysicsWrapper_vtable (stub_platform []) s_PhysicsInterface
        (IPhysics_Connect (Some 99))
        [Sys_LoadInterface_call ''vphysics_jolt_avx2.dll'' ''VPhysics031'' None]))) =
       [Sys_LoadInterface_call ''vphysics_jolt_avx2.dll'' ''VPhysics031'' None,
        Sys_LoadInterface_call ''vphysics_jolt_avx2.dll'' ''VPhysics031'' None]
   \<and> \<not> calls_InitWrapper IPhysics_Init
   \<and> PhysicsWrapper_vtable (stub_platform []) s_PhysicsInterface IPhysics_Init
        [Sys_LoadInterface_call ''vphysics_jolt_avx2.dll'' ''VPhysics031'' None] =
       (Inl NullDereference, s_PhysicsInterface,
        [Sys_LoadInterface_call ''vphysics_jolt_avx2.dll'' ''VPhysics031'' None])"
proof -
  let ?f = "stub_platform []"
  let ?tr = "[Sys_LoadInterface_call ''vphysics_jolt_avx2.dll'' ''VPhysics031'' None]"
  have a: "m_pActualPhysicsInterface s_PhysicsInterface = None"
    by (simp add: s_PhysicsInterface_def)
  have b: "Sys_LoadInterface ?f tr (selected_module ?f) (VPHYSICS_INTERFACE_VERSION ?f) = None" for tr
    by (simp add: stub_fields)
  show ?thesis
    using a b [of "[]"]
      C8_failure_is_not_recorded [OF a, of ?f "[]" "IPhysics_Connect (Some 99)"]
      C8_failure_is_not_recorded [OF a, of ?f ?tr "IPhysics_Connect (Some 99)"]
      C8_failure_is_not_recorded [OF a, of ?f ?tr "IPhysics_Init"]
    by (simp add: stub_selected_module stub_fields loads_def)
qed

section \<open>Disconnect\<close>

text \<open>
  C10. \<open>Disconnect\<close> on a resolved facade forwards the call, unloads the module handle and
  leaves both members as they were: the delegate pointer is still set. The check in
  \<open>InitWrapper\<close> therefore passes without a load, and a following \<open>Connect\<close> or
  \<open>QueryInterface\<close> is dispatched to the delegate of the module just unloaded.
\<close>

theorem C10_Disconnect_keeps_delegate:
  assumes "m_pActualPhysicsInterface this = Some p"
  shows "(let tr' = tr @ [IPhysics_vcall p IPhysics_Disconnect,
                          Sys_UnloadModule_call (m_pActualPhysicsModule this)]
          in PhysicsWrapper_Disconnect h this tr = (Inr RetVoid, this, tr')
             \<and> PhysicsWrapper_InitWrapper h this tr' = (True, this, tr')
             \<and> PhysicsWrapper_Connect h this factory tr' =
                 (Inr (IPhysics_impl h tr' p (IPhysics_Connect factory)), this,
                  tr' @ [IPhysics_vcall p (IPhysics_Connect factory)])
             \<and> PhysicsWrapper_QueryInterface h this pInterfaceName tr' =
                 (Inr (IPhysics_impl h tr' p (IPhysics_QueryInterface pInterfaceName)), this,
                  tr' @ [IPhysics_vcall p (IPhysics_QueryInterface pInterfaceName)]))"
  using assms
  by (simp add: Let_def PhysicsWrapper_Disconnect_def PhysicsWrapper_Connect_def
      PhysicsWrapper_QueryInterface_def InitWrapper_cached arrow_IPhysics_Some
      Sys_UnloadModule_def)

theorem C10_Disconnect_keeps_delegate_witness:
  "m_pActualPhysicsInterface \<lparr>m_pActualPhysicsModule = Some 4096, m_pActualPhysicsInterface = Some 8192\<rparr> = Some 8192
   \<and> PhysicsWrapper_Disconnect (stub_platform [''vphysics_jolt_avx2.dll''])
        \<lparr>m_pActualPhysicsModule = Some 4096, m_pActualPhysicsInterface = Some 8192\<rparr> [] =
       (Inr RetVoid, \<lparr>m_pActualPhysicsModule = Some 4096, m_pActualPhysicsInterface = Some 8192\<rparr>,
        [IPhysics_vcall 8192 IPhysics_Disconnect, Sys_UnloadModule_call (Some 4096)])
   \<and> PhysicsWrapper_Connect (stub_platform [''vphysics_jolt_avx2.dll''])
        \<lparr>m_pActualPhysicsModule = Some 4096, m_pActualPhysicsInterface = Some 8192\<rparr> (Some 99)
        [IPhysics_vcall 8192 IPhysics_Disconnect, Sys_UnloadModule_call (Some 4096)] =
       (Inr (RetBool True), \<lparr>m_pActualPhysicsModule = Some 4096, m_pActualPhysicsInterface = Some 8192\<rparr>,
        [IPhysics_vcall 8192 IPhysics_Disconnect, Sys_UnloadModule_call (Some 4096),
         IPhysics_vcall 8192 (IPhysics_Connect (Some 99))])"
proof -
  let ?h = "stub_platform [''vphysics_jolt_avx2.dll'']"
  let ?w = "\<lparr>m_pActualPhysicsModule = Some 4096, m_pActualPhysicsInterface = Some 8192\<rparr>"
  have a: "m_pActualPhysicsInterface ?w = Some 8192" by simp
  show ?thesis
    using C10_Disconnect_keeps_delegate [OF a, of "[]" ?h "Some 99" "Some 77"]
    by (simp add: Let_def stub_fields stub_IPhysics_def)
qed

end
